theory Spec2Isabelle
  imports
    Main
    "HOL-Library.List_Lexorder"
    "HOL-Library.Product_Lexorder"
    "HOL-Library.Multiset"
begin

section \<open>Data model\<close>

text \<open>
  The three scripts (\<^verbatim>\<open>automate.py\<close>, \<^verbatim>\<open>automate_ollama.py\<close>,
  \<^verbatim>\<open>github_summarizer.py\<close>) talk to the hosting service and to a text generator.
  A Python \<^verbatim>\<open>str\<close> is a sequence of Unicode code points, so it is a list of naturals:
  \<open>length\<close> counts what \<^verbatim>\<open>len\<close> counts. A Python \<^verbatim>\<open>bytes\<close> is the list of its byte
  values. Exceptions are values of the type \<open>error\<close>, and a call that may raise
  returns \<open>error + 'a\<close>.
\<close>

type_synonym str = "nat list"

type_synonym bytes = "nat list"

definition ustr :: "string \<Rightarrow> str" where
  "ustr cs = map of_char cs"

datatype error =
    HTTPError nat
  | BinasciiError
  | ValueError
  | KeyError
  | IndexError
  | UnicodeDecodeError
  | UnicodeEncodeError
  | BackendError

text \<open>
  What \<^verbatim>\<open>requests.get\<close> returns: the status code and the decoded JSON body, typed by
  the endpoint.
\<close>

record 'a response =
  status_code :: nat
  json :: 'a

text \<open>\<^verbatim>\<open>response.raise_for_status()\<close> raises for the client and server error codes.\<close>

definition raise_for_status :: "'a response \<Rightarrow> error + unit" where
  "raise_for_status r =
     (if 400 \<le> status_code r \<and> status_code r < 600 then Inl (HTTPError (status_code r))
      else Inr ())"

section \<open>Repository Lister\<close>

text \<open>
  \<^verbatim>\<open>list_public_repos\<close> is the same function in the three scripts. Its loop
  \<^verbatim>\<open>while True\<close> ends only at an empty page or at an HTTP error, so it is a partial
  function: \<open>None\<close> is the run that never returns. The last argument is the log of the
  page numbers requested so far; the result pairs the outcome with the final log.
\<close>

partial_function (option) list_pages ::
  "(nat \<Rightarrow> 'a list response) \<Rightarrow> nat \<Rightarrow> 'a list \<Rightarrow> nat list \<Rightarrow>
     ((error + 'a list) \<times> nat list) option"
where
  "list_pages get page repos reqs =
     (let response = get page; reqs' = reqs @ [page] in
      case raise_for_status response of
        Inl e \<Rightarrow> Some (Inl e, reqs')
      | Inr _ \<Rightarrow>
          (let data = json response in
           if data = [] then Some (Inr repos, reqs')
           else list_pages get (page + 1) (repos @ data) reqs'))"

text \<open>
  \<open>requests_get username per_page page\<close> stands for the listing endpoint
  \<^verbatim>\<open>/users/{username}/repos?per_page={per_page}&page={page}&type=public\<close>.
\<close>

definition list_public_repos ::
  "(str \<Rightarrow> nat \<Rightarrow> nat \<Rightarrow> 'a list response) \<Rightarrow> str \<Rightarrow>
     ((error + 'a list) \<times> nat list) option" where
  "list_public_repos requests_get username = list_pages (requests_get username 50) 1 [] []"

text \<open>A listing of three pages for the examples: two entries, one entry, then empty.\<close>

definition demo_get :: "str \<Rightarrow> nat \<Rightarrow> nat \<Rightarrow> nat list response" where
  "demo_get u per_page page =
     (if page = 1 then \<lparr>status_code = 200, json = [10, 11]\<rparr>
      else if page = 2 then \<lparr>status_code = 200, json = [12]\<rparr>
      else \<lparr>status_code = 200, json = []\<rparr>)"

section \<open>Library functions of the Python runtime\<close>

text \<open>
  The scripts call a few functions of the Python standard library. They are modelled here
  as CPython computes them: \<^verbatim>\<open>str.strip\<close> and \<^verbatim>\<open>str.rstrip\<close> on Unicode whitespace,
  \<^verbatim>\<open>base64.b64decode\<close> in its default, lenient mode (characters outside the alphabet are
  skipped; a string argument must be ASCII), and the UTF-8 codec, strict and with
  \<^verbatim>\<open>errors="ignore"\<close>.
\<close>

definition isspace :: "nat \<Rightarrow> bool" where
  "isspace c \<longleftrightarrow>
     (9 \<le> c \<and> c \<le> 13) \<or> (28 \<le> c \<and> c \<le> 32) \<or> c = 0x85 \<or> c = 0xA0 \<or> c = 0x1680 \<or>
     (0x2000 \<le> c \<and> c \<le> 0x200A) \<or> c = 0x2028 \<or> c = 0x2029 \<or> c = 0x202F \<or> c = 0x205F \<or>
     c = 0x3000"

definition lstrip :: "str \<Rightarrow> str" where
  "lstrip s = dropWhile isspace s"

definition rstrip :: "str \<Rightarrow> str" where
  "rstrip s = rev (dropWhile isspace (rev s))"

definition strip :: "str \<Rightarrow> str" where
  "strip s = rstrip (lstrip s)"

definition b64_value :: "nat \<Rightarrow> nat option" where
  "b64_value c =
     (if 65 \<le> c \<and> c \<le> 90 then Some (c - 65)
      else if 97 \<le> c \<and> c \<le> 122 then Some (c - 97 + 26)
      else if 48 \<le> c \<and> c \<le> 57 then Some (c - 48 + 52)
      else if c = 43 then Some 62
      else if c = 47 then Some 63
      else None)"

fun a2b_base64 :: "nat list \<Rightarrow> nat \<Rightarrow> nat \<Rightarrow> nat \<Rightarrow> bytes \<Rightarrow> error + bytes" where
  "a2b_base64 [] quad_pos leftchar pads out =
     (if quad_pos \<noteq> 0 then Inl BinasciiError else Inr out)"
| "a2b_base64 (this_ch # rest) quad_pos leftchar pads out =
     (if this_ch = 61 then
        (if quad_pos \<ge> 2 \<and> quad_pos + (pads + 1) \<ge> 4 then Inr out
         else a2b_base64 rest quad_pos leftchar (if quad_pos \<ge> 2 then pads + 1 else pads) out)
      else
        (case b64_value this_ch of
           None \<Rightarrow> a2b_base64 rest quad_pos leftchar pads out
         | Some v \<Rightarrow>
             (if quad_pos = 0 then a2b_base64 rest 1 v 0 out
              else if quad_pos = 1 then
                a2b_base64 rest 2 (v mod 16) 0 (out @ [(leftchar * 4 + v div 16) mod 256])
              else if quad_pos = 2 then
                a2b_base64 rest 3 (v mod 4) 0 (out @ [(leftchar * 16 + v div 4) mod 256])
              else a2b_base64 rest 0 0 0 (out @ [(leftchar * 64 + v) mod 256]))))"

definition b64decode :: "str \<Rightarrow> error + bytes" where
  "b64decode s =
     (if \<exists>c \<in> set s. c \<ge> 128 then Inl ValueError else a2b_base64 s 0 0 0 [])"

definition is_continuation :: "nat \<Rightarrow> bool" where
  "is_continuation b \<longleftrightarrow> 0x80 \<le> b \<and> b < 0xC0"

definition emit :: "nat \<Rightarrow> error + str \<Rightarrow> error + str" where
  "emit c rest = (case rest of Inl e \<Rightarrow> Inl e | Inr s \<Rightarrow> Inr (c # s))"

definition utf8_first :: "nat \<Rightarrow> nat list \<Rightarrow> nat option \<times> nat" where
  "utf8_first ch s1 =
     (if ch < 0x80 then (Some ch, 1)
      else if ch < 0xC2 then (None, 1)
      else if ch < 0xE0 then
        (case s1 of
           [] \<Rightarrow> (None, 1)
         | ch2 # s2 \<Rightarrow>
             if \<not> is_continuation ch2 then (None, 1)
             else (Some ((ch - 0xC0) * 64 + (ch2 - 0x80)), 2))
      else if ch < 0xF0 then
        (case s1 of
           [] \<Rightarrow> (None, 1)
         | ch2 # s2 \<Rightarrow>
             if \<not> is_continuation ch2 \<or> (if ch2 < 0xA0 then ch = 0xE0 else ch = 0xED)
             then (None, 1)
             else
               (case s2 of
                  [] \<Rightarrow> (None, 2)
                | ch3 # s3 \<Rightarrow>
                    if \<not> is_continuation ch3 then (None, 2)
                    else (Some ((ch - 0xE0) * 4096 + (ch2 - 0x80) * 64 + (ch3 - 0x80)), 3)))
      else if ch < 0xF5 then
        (case s1 of
           [] \<Rightarrow> (None, 1)
         | ch2 # s2 \<Rightarrow>
             if \<not> is_continuation ch2 \<or> (if ch2 < 0x90 then ch = 0xF0 else ch = 0xF4)
             then (None, 1)
             else
               (case s2 of
                  [] \<Rightarrow> (None, 2)
                | ch3 # s3 \<Rightarrow>
                    if \<not> is_continuation ch3 then (None, 2)
                    else
                      (case s3 of
                         [] \<Rightarrow> (None, 3)
                       | ch4 # s4 \<Rightarrow>
                           if \<not> is_continuation ch4 then (None, 3)
                           else (Some ((ch - 0xF0) * 262144 + (ch2 - 0x80) * 4096 +
                                       (ch3 - 0x80) * 64 + (ch4 - 0x80)), 4))))
      else (None, 1))"

fun utf8_decode :: "bool \<Rightarrow> bytes \<Rightarrow> error + str" where
  "utf8_decode ignore [] = Inr []"
| "utf8_decode ignore (ch # s1) =
     (case utf8_first ch s1 of
        (Some c, n) \<Rightarrow> emit c (utf8_decode ignore (drop (n - 1) s1))
      | (None, n) \<Rightarrow>
          if ignore then utf8_decode ignore (drop (n - 1) s1) else Inl UnicodeDecodeError)"


text \<open>\<^verbatim>\<open>description.split("\n")[0]\<close>: the text before the first line feed.\<close>

definition first_line :: "str \<Rightarrow> str" where
  "first_line s = takeWhile (\<lambda>c. c \<noteq> 10) s"

text \<open>\<^verbatim>\<open>sep.join(xs)\<close>.\<close>

fun join :: "str \<Rightarrow> str list \<Rightarrow> str" where
  "join sep [] = []"
| "join sep [x] = x"
| "join sep (x # y # ys) = x @ sep @ join sep (y # ys)"

text \<open>
  \<^verbatim>\<open>sorted(xs, key=key, reverse=True)\<close> and \<^verbatim>\<open>xs.sort(key=key, reverse=True)\<close>: a stable
  sort into descending order of the key, elements with equal keys staying in their original
  order.
\<close>

definition sorted_reverse :: "('a \<Rightarrow> 'k::linorder) \<Rightarrow> 'a list \<Rightarrow> 'a list" where
  "sorted_reverse key xs = rev (sort_key key (rev xs))"

text \<open>\<^verbatim>\<open>s.encode("utf-8")\<close>: a surrogate code point cannot be encoded.\<close>

definition utf8_encode_char :: "nat \<Rightarrow> error + bytes" where
  "utf8_encode_char c =
     (if c < 0x80 then Inr [c]
      else if c < 0x800 then Inr [0xC0 + c div 64, 0x80 + c mod 64]
      else if 0xD800 \<le> c \<and> c < 0xE000 then Inl UnicodeEncodeError
      else if c < 0x10000 then
        Inr [0xE0 + c div 4096, 0x80 + (c div 64) mod 64, 0x80 + c mod 64]
      else
        Inr [0xF0 + c div 262144, 0x80 + (c div 4096) mod 64, 0x80 + (c div 64) mod 64,
             0x80 + c mod 64])"

fun utf8_encode :: "str \<Rightarrow> error + bytes" where
  "utf8_encode [] = Inr []"
| "utf8_encode (c # cs) =
     (case utf8_encode_char c of
        Inl e \<Rightarrow> Inl e
      | Inr b \<Rightarrow> (case utf8_encode cs of Inl e \<Rightarrow> Inl e | Inr bs \<Rightarrow> Inr (b @ bs)))"

text \<open>\<^verbatim>\<open>try: body except Exception as e: handler\<close>.\<close>

definition try_except :: "error + 'a \<Rightarrow> (error \<Rightarrow> error + 'a) \<Rightarrow> error + 'a" where
  "try_except body handler = (case body of Inl e \<Rightarrow> handler e | Inr v \<Rightarrow> Inr v)"

text \<open>
  \<^verbatim>\<open>print\<close> writes a line to the standard output, and raises when the stream cannot
  encode the text. The generators print inside their \<^verbatim>\<open>try\<close> and \<^verbatim>\<open>except\<close> clauses,
  where a print that raises changes what they return, so \<open>print\<close> is a parameter of
  theirs, and so is \<open>exc_str\<close>, which stands for \<^verbatim>\<open>str(e)\<close>, the text of an exception.
  \<open>print_utf8\<close> is the print of a standard output in strict UTF-8.
\<close>

definition print_utf8 :: "str \<Rightarrow> error + unit" where
  "print_utf8 s = (case utf8_encode (s @ [10]) of Inl e \<Rightarrow> Inl e | Inr b \<Rightarrow> Inr ())"

text \<open>What \<^verbatim>\<open>subprocess.run\<close> returns when it does not raise.\<close>

record completed_process =
  returncode :: int
  stdout :: bytes
  stderr :: bytes

section \<open>Readme Fetcher and Language Fetcher\<close>

text \<open>
  The body of the readme endpoint: the JSON keys \<^verbatim>\<open>content\<close> and \<^verbatim>\<open>encoding\<close>, each
  possibly missing (\<^verbatim>\<open>data.get\<close> then gives \<^verbatim>\<open>None\<close>).
\<close>

record readme_data =
  content :: "str option"
  encoding :: "str option"

text \<open>
  \<^verbatim>\<open>get_readme\<close> is the same function in the three scripts. \<open>requests_get owner repo\<close>
  stands for the endpoint \<^verbatim>\<open>/repos/{owner}/{repo}/readme\<close>. The test
  \<^verbatim>\<open>if content and encoding == "base64"\<close> needs a content that is present and not empty.
\<close>

definition get_readme ::
  "(str \<Rightarrow> str \<Rightarrow> readme_data response) \<Rightarrow> str \<Rightarrow> str \<Rightarrow> error + str option" where
  "get_readme requests_get owner repo =
     (let response = requests_get owner repo in
      if status_code response = 404 then Inr None
      else
        (case raise_for_status response of
           Inl e \<Rightarrow> Inl e
         | Inr _ \<Rightarrow>
             (let data = json response in
              case content data of
                None \<Rightarrow> Inr None
              | Some c \<Rightarrow>
                  if c \<noteq> [] \<and> encoding data = Some (ustr ''base64'') then
                    (case b64decode c of
                       Inl e \<Rightarrow> Inl e
                     | Inr b \<Rightarrow>
                         (case utf8_decode True b of
                            Inl e \<Rightarrow> Inl e
                          | Inr text \<Rightarrow> Inr (Some text)))
                  else Inr None)))"

text \<open>
  \<^verbatim>\<open>get_repo_languages\<close> (summarizer only). The body of the languages endpoint is a JSON
  object from language name to byte count; a Python dict keeps the order of its keys, so it
  is an association list.
\<close>

type_synonym languages = "(str \<times> int) list"

definition get_repo_languages ::
  "(str \<Rightarrow> str \<Rightarrow> languages response) \<Rightarrow> str \<Rightarrow> str \<Rightarrow> languages" where
  "get_repo_languages requests_get owner repo =
     (let response = requests_get owner repo in
      if status_code response = 200 then json response else [])"

text \<open>Responses for the examples.\<close>

definition readme_hello :: "str \<Rightarrow> str \<Rightarrow> readme_data response" where
  "readme_hello owner repo =
     \<lparr>status_code = 200,
      json = \<lparr>content = Some (ustr ''SGVsbG8gV29ybGQh''), encoding = Some (ustr ''base64'')\<rparr>\<rparr>"

definition readme_plain :: "str \<Rightarrow> str \<Rightarrow> readme_data response" where
  "readme_plain owner repo =
     \<lparr>status_code = 200,
      json = \<lparr>content = Some (ustr ''Hello World!''), encoding = Some (ustr ''utf-8'')\<rparr>\<rparr>"

definition languages_ok :: "str \<Rightarrow> str \<Rightarrow> languages response" where
  "languages_ok owner repo =
     \<lparr>status_code = 200, json = [(ustr ''Python'', 1024), (ustr ''JavaScript'', 256)]\<rparr>"

definition languages_forbidden :: "str \<Rightarrow> str \<Rightarrow> languages response" where
  "languages_forbidden owner repo =
     \<lparr>status_code = 403, json = [(ustr ''Python'', 1024)]\<rparr>"

definition languages_none :: "str \<Rightarrow> str \<Rightarrow> languages response" where
  "languages_none owner repo = \<lparr>status_code = 200, json = []\<rparr>"

section \<open>Text Generator, description mode\<close>

text \<open>
  Both \<^verbatim>\<open>generate_description\<close> functions end with the same two lines, which keep a
  description within 120 characters:
  \<^verbatim>\<open>if len(description) > 120: description = description[:117].rstrip() + "..."\<close>.
\<close>

definition ensure_not_too_long :: "str \<Rightarrow> str" where
  "ensure_not_too_long description =
     (if length description > 120 then rstrip (take 117 description) @ ustr ''...''
      else description)"

text \<open>The prompt of \<^verbatim>\<open>automate.py\<close>; the apostrophe is code point 39.\<close>

definition openai_prompt :: "str \<Rightarrow> str option \<Rightarrow> str" where
  "openai_prompt repo_name readme_content =
     (let prompt_intro =
            ustr ''Write a short and clear GitHub repository description (max 120 characters) for a project named ''
            @ [39] @ repo_name @ [39] @ ustr ''.''
      in case readme_content of
           Some (c # cs) \<Rightarrow>
             (let snippet = take 1500 (c # cs) in
              prompt_intro @ ustr ''\<newline>\<newline>The README of the project is:\<newline>'' @ snippet
                @ ustr ''\<newline>\<newline>Description:'')
         | _ \<Rightarrow>
             prompt_intro @ ustr ''\<newline>\<newline>No README content is available.\<newline>\<newline>Description:'')"

text \<open>
  \<^verbatim>\<open>generate_description\<close> of \<^verbatim>\<open>automate.py\<close>. \<open>completion_create prompt\<close> stands for
  \<^verbatim>\<open>openai.Completion.create\<close> with the fixed sampling parameters: it raises, or it returns
  the texts of the choices. \<^verbatim>\<open>response.choices[0]\<close> raises on an empty list. The
  \<^verbatim>\<open>except\<close> clause prints before it returns the empty string.
\<close>

definition generate_description_openai ::
  "(str \<Rightarrow> error + unit) \<Rightarrow> (error \<Rightarrow> str) \<Rightarrow> (str \<Rightarrow> error + str list) \<Rightarrow> str \<Rightarrow> str option \<Rightarrow>
     error + str" where
  "generate_description_openai print exc_str completion_create repo_name readme_content =
     (let prompt = openai_prompt repo_name readme_content in
      try_except
        (case completion_create prompt of
           Inl e \<Rightarrow> Inl e
         | Inr choices \<Rightarrow>
             (case choices of
                [] \<Rightarrow> Inl IndexError
              | choice # _ \<Rightarrow>
                  (let description = strip choice in
                   Inr (ensure_not_too_long description))))
        (\<lambda>e. case print (ustr ''OpenAI API error for repo '' @ repo_name @ ustr '': '' @ exc_str e) of
               Inl e' \<Rightarrow> Inl e'
             | Inr _ \<Rightarrow> Inr []))"

text \<open>The prompt of \<^verbatim>\<open>automate_ollama.py\<close>.\<close>

definition ollama_prompt :: "str \<Rightarrow> str option \<Rightarrow> str" where
  "ollama_prompt repo_name readme_content =
     (let prompt_intro =
            ustr ''Task: Generate a GitHub repo description for '' @ [39] @ repo_name @ [39]
            @ ustr ''. STRICT RULES: Max 120 characters. Output format: Plain text only - no quotes, no prefixes, no explanations, no markdown. Just the description sentence.''
      in case readme_content of
           Some (c # cs) \<Rightarrow>
             (let snippet = take 1500 (c # cs) in
              prompt_intro @ ustr ''\<newline>\<newline>The README of the project is:\<newline>'' @ snippet
                @ ustr ''\<newline>\<newline>Description:'')
         | _ \<Rightarrow>
             prompt_intro @ ustr ''\<newline>\<newline>No README content is available.\<newline>\<newline>Description:'')"

text \<open>
  \<^verbatim>\<open>generate_description\<close> of \<^verbatim>\<open>automate_ollama.py\<close>.
  \<open>subprocess_run args input timeout\<close> stands for \<^verbatim>\<open>subprocess.run\<close> with both pipes captured:
  it raises (the timeout, a missing program), or it returns the completed process. On a
  non-zero exit the error message decodes \<^verbatim>\<open>stderr\<close> and is printed, inside the
  \<^verbatim>\<open>try\<close>: both can raise. The \<^verbatim>\<open>except\<close> clause prints before it returns the empty
  string, outside any \<^verbatim>\<open>try\<close>: an exception of this print leaves the function.
\<close>

definition generate_description_ollama ::
  "(str \<Rightarrow> error + unit) \<Rightarrow> (error \<Rightarrow> str) \<Rightarrow>
     (str list \<Rightarrow> bytes \<Rightarrow> nat \<Rightarrow> error + completed_process) \<Rightarrow> str \<Rightarrow> str \<Rightarrow> str option \<Rightarrow>
     error + str" where
  "generate_description_ollama print exc_str subprocess_run model repo_name readme_content =
     (let prompt = ollama_prompt repo_name readme_content in
      try_except
        (case utf8_encode prompt of
           Inl e \<Rightarrow> Inl e
         | Inr input \<Rightarrow>
             (case subprocess_run [ustr ''ollama'', ustr ''run'', model] input 120 of
                Inl e \<Rightarrow> Inl e
              | Inr result \<Rightarrow>
                  if returncode result \<noteq> 0 then
                    (case utf8_decode False (stderr result) of
                       Inl e \<Rightarrow> Inl e
                     | Inr message \<Rightarrow>
                         (case print (ustr ''Ollama CLI error for repo '' @ repo_name @ ustr '': ''
                                      @ message) of
                            Inl e \<Rightarrow> Inl e
                          | Inr _ \<Rightarrow> Inr []))
                  else
                    (case utf8_decode False (stdout result) of
                       Inl e \<Rightarrow> Inl e
                     | Inr out \<Rightarrow>
                         (let description = strip out;
                              description = first_line description
                          in Inr (ensure_not_too_long description)))))
        (\<lambda>e. case print (ustr ''Ollama subprocess error for repo '' @ repo_name @ ustr '': ''
                           @ exc_str e) of
               Inl e' \<Rightarrow> Inl e'
             | Inr _ \<Rightarrow> Inr []))"

section \<open>Text Generator, summary mode\<close>

text \<open>
  \<^verbatim>\<open>generate_project_summary\<close> of \<^verbatim>\<open>github_summarizer.py\<close> starts with the three languages
  of the most bytes and their names joined by commas.
\<close>

definition top_languages :: "languages \<Rightarrow> (str \<times> int) list" where
  "top_languages languages = take 3 (sorted_reverse snd languages)"

definition lang_info :: "languages \<Rightarrow> str" where
  "lang_info languages =
     (if top_languages languages \<noteq> [] then join (ustr '', '') (map fst (top_languages languages))
      else ustr ''Unknown'')"

definition summary_prompt :: "str \<Rightarrow> str \<Rightarrow> languages \<Rightarrow> str" where
  "summary_prompt repo_name readme_content languages =
     ustr ''Task: Analyze this GitHub repository and create a comprehensive project summary.\<newline>\<newline>Repository: ''
     @ repo_name @ ustr ''\<newline>Main Technologies: '' @ lang_info languages
     @ ustr ''\<newline>\<newline>README Content:\<newline>'' @ take 2000 readme_content
     @ ustr ''\<newline>\<newline>Please provide a detailed summary in the following format:\<newline>- Brief project description (1-2 sentences)\<newline>- Key features or functionality\<newline>- Technologies/frameworks used\<newline>- Purpose or use case\<newline>\<newline>Keep the summary informative but concise (max 300 words). Focus on what the project does and its main value proposition.''"

text \<open>
  The string returned on failure, written twice in the source:
  \<^verbatim>\<open>f"Repository: {repo_name}\nTechnologies: {lang_info}\n*Summary generation failed*"\<close>.
\<close>

definition summary_failed :: "str \<Rightarrow> languages \<Rightarrow> str" where
  "summary_failed repo_name languages =
     ustr ''Repository: '' @ repo_name @ ustr ''\<newline>Technologies: '' @ lang_info languages
     @ ustr ''\<newline>*Summary generation failed*''"

definition generate_project_summary ::
  "(str \<Rightarrow> error + unit) \<Rightarrow> (error \<Rightarrow> str) \<Rightarrow>
     (str list \<Rightarrow> bytes \<Rightarrow> nat \<Rightarrow> error + completed_process) \<Rightarrow> str \<Rightarrow> str \<Rightarrow> str \<Rightarrow> languages \<Rightarrow>
     error + str" where
  "generate_project_summary print exc_str subprocess_run model repo_name readme_content languages =
     (let prompt = summary_prompt repo_name readme_content languages in
      try_except
        (case utf8_encode prompt of
           Inl e \<Rightarrow> Inl e
         | Inr input \<Rightarrow>
             (case subprocess_run [ustr ''ollama'', ustr ''run'', model] input 180 of
                Inl e \<Rightarrow> Inl e
              | Inr result \<Rightarrow>
                  if returncode result \<noteq> 0 then
                    (case utf8_decode False (stderr result) of
                       Inl e \<Rightarrow> Inl e
                     | Inr message \<Rightarrow>
                         (case print (ustr ''Ollama CLI error for repo '' @ repo_name @ ustr '': ''
                                      @ message) of
                            Inl e \<Rightarrow> Inl e
                          | Inr _ \<Rightarrow> Inr (summary_failed repo_name languages)))
                  else
                    (case utf8_decode False (stdout result) of
                       Inl e \<Rightarrow> Inl e
                     | Inr out \<Rightarrow> (let summary = strip out in Inr summary))))
        (\<lambda>e. case print (ustr ''Ollama subprocess error for repo '' @ repo_name @ ustr '': ''
                           @ exc_str e) of
               Inl e' \<Rightarrow> Inl e'
             | Inr _ \<Rightarrow> Inr (summary_failed repo_name languages)))"

section \<open>Describer: writer and orchestrator\<close>

text \<open>
  What the scripts do to the outside: a \<^verbatim>\<open>PATCH /repos/{owner}/{repo}\<close> with a JSON
  payload, \<^verbatim>\<open>time.sleep\<close>, and (the summarizer) writing a file of a given name and
  content. The messages that \<^verbatim>\<open>main\<close> and \<^verbatim>\<open>update_repo_description\<close> print are not
  part of the model: what is stated of \<^verbatim>\<open>main\<close> is stated of the runs that complete.
\<close>

datatype event =
    PatchRequest str str "(str \<times> str) list"
  | Sleep nat
  | WriteFile str str

text \<open>
  \<^verbatim>\<open>update_repo_description\<close> sends the request; the status of the answer only selects the
  message printed.
\<close>

definition update_repo_description :: "str \<Rightarrow> str \<Rightarrow> str \<Rightarrow> event list \<Rightarrow> event list" where
  "update_repo_description owner repo description log =
     (let payload = [(ustr ''description'', description)] in
      log @ [PatchRequest owner repo payload])"

text \<open>
  A repository as the listing endpoint returns it, with the three keys the summarizer adds
  later (\<open>None\<close> while a key is missing). \<^verbatim>\<open>description\<close> may be the JSON null. The
  counters are read with \<^verbatim>\<open>repo.get(key, 0)\<close>, so a missing counter is \<open>None\<close>.
\<close>

record repo =
  name :: str
  description :: "str option"
  html_url :: str
  created_at :: str
  updated_at :: str
  stargazers_count :: "int option"
  forks_count :: "int option"
  open_issues_count :: "int option"
  languages :: "languages option"
  ai_summary :: "str option"
  readme_content :: "str option"

text \<open>\<^verbatim>\<open>repo.get("description") or ""\<close>.\<close>

definition description_or_empty :: "repo \<Rightarrow> str" where
  "description_or_empty repo = (case description repo of None \<Rightarrow> [] | Some d \<Rightarrow> d)"

text \<open>
  The body of the loop of \<^verbatim>\<open>main\<close>, the same in \<^verbatim>\<open>automate.py\<close> and
  \<^verbatim>\<open>automate_ollama.py\<close> but for the \<^verbatim>\<open>generate_description\<close> it calls, which is the
  parameter \<open>generate\<close>. An exception leaves the loop with the requests sent so far.
\<close>

definition process_repo ::
  "(str \<Rightarrow> str option \<Rightarrow> error + str) \<Rightarrow> (str \<Rightarrow> str \<Rightarrow> readme_data response) \<Rightarrow> str \<Rightarrow>
     repo \<Rightarrow> event list \<Rightarrow> (error + unit) \<times> event list" where
  "process_repo generate readme_get username repo log =
     (let repo_name = name repo;
          current_description = description_or_empty repo
      in case get_readme readme_get username repo_name of
           Inl e \<Rightarrow> (Inl e, log)
         | Inr readme \<Rightarrow>
             (case generate repo_name readme of
                Inl e \<Rightarrow> (Inl e, log)
              | Inr new_description \<Rightarrow>
                  if new_description \<noteq> [] \<and> new_description \<noteq> current_description then
                    (Inr (), update_repo_description username repo_name new_description log
                               @ [Sleep 2])
                  else (Inr (), log)))"

fun process_repos ::
  "(str \<Rightarrow> str option \<Rightarrow> error + str) \<Rightarrow> (str \<Rightarrow> str \<Rightarrow> readme_data response) \<Rightarrow> str \<Rightarrow>
     repo list \<Rightarrow> event list \<Rightarrow> (error + unit) \<times> event list" where
  "process_repos generate readme_get username [] log = (Inr (), log)"
| "process_repos generate readme_get username (repo # repos) log =
     (case process_repo generate readme_get username repo log of
        (Inl e, log') \<Rightarrow> (Inl e, log')
      | (Inr _, log') \<Rightarrow> process_repos generate readme_get username repos log')"

text \<open>
  The services and the configuration a run depends on: the environment variables read at
  start-up, the three endpoints of the hosting service, the two text generators
  (\<^verbatim>\<open>openai.Completion.create\<close> and \<^verbatim>\<open>subprocess.run\<close>), and what the generators need
  to print an error (\<^verbatim>\<open>print\<close> and \<^verbatim>\<open>str(e)\<close>).
\<close>

record world =
  GITHUB_USERNAME :: str
  OLLAMA_MODEL :: str
  repos_endpoint :: "str \<Rightarrow> nat \<Rightarrow> nat \<Rightarrow> repo list response"
  readme_endpoint :: "str \<Rightarrow> str \<Rightarrow> readme_data response"
  languages_endpoint :: "str \<Rightarrow> str \<Rightarrow> languages response"
  completion_backend :: "str \<Rightarrow> error + str list"
  process_backend :: "str list \<Rightarrow> bytes \<Rightarrow> nat \<Rightarrow> error + completed_process"
  console_print :: "str \<Rightarrow> error + unit"
  exception_text :: "error \<Rightarrow> str"

text \<open>
  \<^verbatim>\<open>main\<close> of \<^verbatim>\<open>automate.py\<close> and of \<^verbatim>\<open>automate_ollama.py\<close>: \<open>None\<close> when the listing
  never ends, otherwise the outcome and the requests sent.
\<close>

definition main_with ::
  "(str \<Rightarrow> str option \<Rightarrow> error + str) \<Rightarrow> world \<Rightarrow> ((error + unit) \<times> event list) option" where
  "main_with generate w =
     (case list_public_repos (repos_endpoint w) (GITHUB_USERNAME w) of
        None \<Rightarrow> None
      | Some (Inl e, _) \<Rightarrow> Some (Inl e, [])
      | Some (Inr repos, _) \<Rightarrow>
          Some (process_repos generate (readme_endpoint w) (GITHUB_USERNAME w) repos []))"

definition main_automate :: "world \<Rightarrow> ((error + unit) \<times> event list) option" where
  "main_automate w =
     main_with
       (generate_description_openai (console_print w) (exception_text w) (completion_backend w)) w"

definition main_automate_ollama :: "world \<Rightarrow> ((error + unit) \<times> event list) option" where
  "main_automate_ollama w =
     main_with
       (generate_description_ollama (console_print w) (exception_text w) (process_backend w)
          (OLLAMA_MODEL w)) w"

section \<open>Summarizer: report\<close>

text \<open>An integer in an f-string: its decimal digits, with a minus sign when negative.\<close>

function str_of_nat :: "nat \<Rightarrow> str" where
  "str_of_nat n = (if n < 10 then [48 + n] else str_of_nat (n div 10) @ [48 + n mod 10])"
  by pat_completeness auto
termination
  by (relation "measure id") auto

declare str_of_nat.simps [simp del]

definition str_of_int :: "int \<Rightarrow> str" where
  "str_of_int i = (if i < 0 then 45 # str_of_nat (nat (- i)) else str_of_nat (nat i))"

text \<open>\<^verbatim>\<open>repo.get(key, 0)\<close> for one of the three counters.\<close>

definition count_or_0 :: "int option \<Rightarrow> int" where
  "count_or_0 c = (case c of None \<Rightarrow> 0 | Some n \<Rightarrow> n)"

definition format_repo_stats :: "repo \<Rightarrow> str" where
  "format_repo_stats repo =
     (let stats = [];
          stats = (if count_or_0 (stargazers_count repo) > 0
                   then stats @ [[0x2B50] @ ustr '' '' @ str_of_int (count_or_0 (stargazers_count repo))
                                 @ ustr '' stars'']
                   else stats);
          stats = (if count_or_0 (forks_count repo) > 0
                   then stats @ [[0x1F374] @ ustr '' '' @ str_of_int (count_or_0 (forks_count repo))
                                 @ ustr '' forks'']
                   else stats);
          stats = (if count_or_0 (open_issues_count repo) > 0
                   then stats @ [[0x1F4DD] @ ustr '' ''
                                 @ str_of_int (count_or_0 (open_issues_count repo))
                                 @ ustr '' open issues'']
                   else stats)
      in if stats \<noteq> [] then join (ustr '' | '') stats else ustr ''*No public engagement yet*'')"

text \<open>
  The \<^verbatim>\<open>datetime\<close> library is a parameter: the clock as read in
  \<^verbatim>\<open>generate_markdown_report\<close> and later in \<^verbatim>\<open>main\<close>, \<^verbatim>\<open>datetime.strptime\<close> (string, then
  format; it raises on a string that does not match) and \<^verbatim>\<open>strftime\<close>.
\<close>

record 'dt datetime_lib =
  now_in_report :: 'dt
  now_in_main :: 'dt
  strptime :: "str \<Rightarrow> str \<Rightarrow> error + 'dt"
  strftime :: "'dt \<Rightarrow> str \<Rightarrow> str"

text \<open>
  The three f-strings of \<^verbatim>\<open>generate_markdown_report\<close>, as functions of the values they
  interpolate: the top of the report with the overview table, the section of one project,
  and the end of the report. Code points above 127 are the emoji of the source; 96 is the
  backquote.
\<close>

definition report_head :: "str \<Rightarrow> nat \<Rightarrow> int \<Rightarrow> int \<Rightarrow> str" where
  "report_head generated_on n total_stars total_forks =
     ustr ''# '' @ [128640]
     @ ustr '' GitHub Projects Portfolio\<newline>\<newline>**Generated on:** '' @ generated_on
     @ ustr ''  \<newline>**Total Projects with Documentation:** '' @ str_of_int (int n)
     @ ustr ''\<newline>\<newline>---\<newline>\<newline>## '' @ [128202]
     @ ustr '' Quick Overview\<newline>\<newline>| Metric | Count |\<newline>|--------|-------|\<newline>| **Total Documented Projects** | ''
     @ str_of_int (int n) @ ustr '' |\<newline>| **Total Stars** | '' @ str_of_int total_stars
     @ ustr '' |\<newline>| **Total Forks** | '' @ str_of_int total_forks
     @ ustr '' |\<newline>\<newline>---\<newline>\<newline>## '' @ [128193]
     @ ustr '' Project Details\<newline>\<newline>''"

definition section_text :: "nat \<Rightarrow> str \<Rightarrow> str \<Rightarrow> str \<Rightarrow> str \<Rightarrow> str \<Rightarrow> str \<Rightarrow> str \<Rightarrow> str" where
  "section_text i repo_name repo_url lang_section created_date updated_date stats summary =
     ustr ''### '' @ str_of_int (int i) @ ustr ''. ['' @ repo_name @ ustr '']('' @ repo_url
     @ ustr '')\<newline>\<newline>**Technologies:** '' @ lang_section
     @ ustr ''  \<newline>**Created:** '' @ created_date @ ustr '' | **Last Updated:** ''
     @ updated_date @ ustr ''  \<newline>**Stats:** '' @ stats @ ustr ''\<newline>\<newline>''
     @ summary @ ustr ''\<newline>\<newline>---\<newline>\<newline>''"

definition report_foot :: "str \<Rightarrow> str" where
  "report_foot username =
     ustr ''\<newline>## '' @ [128279]
     @ ustr '' Connect\<newline>\<newline>Visit my GitHub profile: [@'' @ username
     @ ustr ''](https://github.com/'' @ username
     @ ustr '')\<newline>\<newline>*This report was generated automatically using AI analysis of repository README files.*\<newline>''"

text \<open>
  The body of the loop over \<^verbatim>\<open>enumerate(projects, 1)\<close>. The keys of the languages are
  those of a dict, hence distinct.
\<close>

definition project_section :: "'dt datetime_lib \<Rightarrow> nat \<Rightarrow> repo \<Rightarrow> error + str" where
  "project_section dt i project =
     (let repo_name = name project;
          repo_url = html_url project
      in case strptime dt (created_at project) (ustr ''%Y-%m-%dT%H:%M:%SZ'') of
           Inl e \<Rightarrow> Inl e
         | Inr created \<Rightarrow>
             (let created_date = strftime dt created (ustr ''%B %Y'') in
              case strptime dt (updated_at project) (ustr ''%Y-%m-%dT%H:%M:%SZ'') of
                Inl e \<Rightarrow> Inl e
              | Inr updated \<Rightarrow>
                  (let updated_date = strftime dt updated (ustr ''%B %d, %Y'');
                       langs = (case languages project of None \<Rightarrow> [] | Some l \<Rightarrow> l);
                       lang_badges = map (\<lambda>lang. [96] @ lang @ [96]) (take 5 (map fst langs));
                       lang_section =
                         (if lang_badges \<noteq> [] then join (ustr '' '') lang_badges
                          else [96] @ ustr ''Unknown'' @ [96]);
                       stats = format_repo_stats project;
                       summary =
                         (case ai_summary project of
                            None \<Rightarrow> ustr ''*Summary not available*''
                          | Some s \<Rightarrow> s)
                   in Inr (section_text i repo_name repo_url lang_section created_date
                             updated_date stats summary))))"

fun project_sections :: "'dt datetime_lib \<Rightarrow> nat \<Rightarrow> repo list \<Rightarrow> error + str list" where
  "project_sections dt i [] = Inr []"
| "project_sections dt i (project # projects) =
     (case project_section dt i project of
        Inl e \<Rightarrow> Inl e
      | Inr s \<Rightarrow>
          (case project_sections dt (i + 1) projects of
             Inl e \<Rightarrow> Inl e
           | Inr ss \<Rightarrow> Inr (s # ss)))"

definition generate_markdown_report :: "'dt datetime_lib \<Rightarrow> str \<Rightarrow> repo list \<Rightarrow> error + str" where
  "generate_markdown_report dt username projects =
     (let report =
            report_head (strftime dt (now_in_report dt) (ustr ''%B %d, %Y'')) (length projects)
              (sum_list (map (\<lambda>p. count_or_0 (stargazers_count p)) projects))
              (sum_list (map (\<lambda>p. count_or_0 (forks_count p)) projects))
      in case project_sections dt 1 projects of
           Inl e \<Rightarrow> Inl e
         | Inr sections \<Rightarrow> Inr (report @ concat sections @ report_foot username))"

section \<open>Summarizer: orchestrator\<close>

text \<open>
  The body of the loop of \<^verbatim>\<open>main\<close> in \<^verbatim>\<open>github_summarizer.py\<close>: a repository with a
  readme that is present and not empty gets its three new keys and is appended to
  \<^verbatim>\<open>repos_with_readme\<close>; any other repository is skipped.
\<close>

definition summarize_repo ::
  "world \<Rightarrow> repo \<Rightarrow> repo list \<Rightarrow> event list \<Rightarrow> (error + repo list) \<times> event list" where
  "summarize_repo w repo repos_with_readme log =
     (let repo_name = name repo in
      case get_readme (readme_endpoint w) (GITHUB_USERNAME w) repo_name of
        Inl e \<Rightarrow> (Inl e, log)
      | Inr readme \<Rightarrow>
          (case readme of
             Some (c # cs) \<Rightarrow>
               (let langs = get_repo_languages (languages_endpoint w) (GITHUB_USERNAME w) repo_name;
                    repo = repo\<lparr>languages := Some langs\<rparr>
                in case generate_project_summary (console_print w) (exception_text w)
                          (process_backend w) (OLLAMA_MODEL w) repo_name (c # cs) langs of
                     Inl e \<Rightarrow> (Inl e, log)
                   | Inr summary \<Rightarrow>
                       (let repo = repo\<lparr>ai_summary := Some summary\<rparr>;
                            repo = repo\<lparr>readme_content := Some (c # cs)\<rparr>
                        in (Inr (repos_with_readme @ [repo]), log @ [Sleep 2])))
           | _ \<Rightarrow> (Inr repos_with_readme, log)))"

fun summarize_repos ::
  "world \<Rightarrow> repo list \<Rightarrow> repo list \<Rightarrow> event list \<Rightarrow> (error + repo list) \<times> event list" where
  "summarize_repos w [] repos_with_readme log = (Inr repos_with_readme, log)"
| "summarize_repos w (repo # all_repos) repos_with_readme log =
     (case summarize_repo w repo repos_with_readme log of
        (Inl e, log') \<Rightarrow> (Inl e, log')
      | (Inr repos_with_readme', log') \<Rightarrow> summarize_repos w all_repos repos_with_readme' log')"

text \<open>The key of the sort: \<^verbatim>\<open>(x.get('stargazers_count', 0), x['updated_at'])\<close>.\<close>

definition sort_key_of :: "repo \<Rightarrow> int \<times> str" where
  "sort_key_of x = (count_or_0 (stargazers_count x), updated_at x)"

text \<open>
  \<^verbatim>\<open>main\<close> after the listing: the loop, then, if some repository was kept, the sort, the
  report and the file.
\<close>

definition summarize ::
  "'dt datetime_lib \<Rightarrow> world \<Rightarrow> repo list \<Rightarrow> (error + unit) \<times> event list" where
  "summarize dt w all_repos =
     (case summarize_repos w all_repos [] [] of
        (Inl e, log) \<Rightarrow> (Inl e, log)
      | (Inr repos_with_readme, log) \<Rightarrow>
          if repos_with_readme \<noteq> [] then
            (let repos_with_readme = sorted_reverse sort_key_of repos_with_readme in
             case generate_markdown_report dt (GITHUB_USERNAME w) repos_with_readme of
               Inl e \<Rightarrow> (Inl e, log)
             | Inr markdown_report \<Rightarrow>
                 (let filename =
                        ustr ''github_projects_report_''
                        @ strftime dt (now_in_main dt) (ustr ''%Y%m%d_%H%M%S'') @ ustr ''.md''
                  in (Inr (), log @ [WriteFile filename markdown_report])))
          else (Inr (), log))"

definition main_summarizer ::
  "'dt datetime_lib \<Rightarrow> world \<Rightarrow> ((error + unit) \<times> event list) option" where
  "main_summarizer dt w =
     (case list_public_repos (repos_endpoint w) (GITHUB_USERNAME w) of
        None \<Rightarrow> None
      | Some (Inl e, _) \<Rightarrow> Some (Inl e, [])
      | Some (Inr all_repos, _) \<Rightarrow> Some (summarize dt w all_repos))"

text \<open>
  For the statements about the report: the test \<^verbatim>\<open>if readme:\<close> of the loop, as a
  predicate on a repository (its readme fetch returned a text that is not empty), and a
  repository without the three keys that the loop adds.
\<close>

definition readme_found :: "world \<Rightarrow> repo \<Rightarrow> bool" where
  "readme_found w repo =
     (case get_readme (readme_endpoint w) (GITHUB_USERNAME w) (name repo) of
        Inr (Some (c # cs)) \<Rightarrow> True
      | _ \<Rightarrow> False)"

definition as_listed :: "repo \<Rightarrow> repo" where
  "as_listed repo = repo\<lparr>languages := None, ai_summary := None, readme_content := None\<rparr>"

text \<open>
  For the statement about the order of the sections: how an \<^verbatim>\<open>updated_at\<close> of the hosting
  service reads. It has the fixed width of \<^verbatim>\<open>2024-09-01T12:00:00Z\<close>; its value is the list
  of year, month, day, hour, minute and second, which the lexicographic order compares as
  points in time.
\<close>

definition is_digit :: "nat \<Rightarrow> bool" where
  "is_digit c \<longleftrightarrow> 48 \<le> c \<and> c \<le> 57"

definition decimal :: "str \<Rightarrow> nat" where
  "decimal s = foldl (\<lambda>a c. 10 * a + (c - 48)) 0 s"

definition timestamp_fields :: "str \<Rightarrow> str list" where
  "timestamp_fields s =
     [take 4 s, take 2 (drop 5 s), take 2 (drop 8 s), take 2 (drop 11 s), take 2 (drop 14 s),
      take 2 (drop 17 s)]"

definition well_formed_timestamp :: "str \<Rightarrow> bool" where
  "well_formed_timestamp s \<longleftrightarrow>
     length s = 20 \<and> list_all (list_all is_digit) (timestamp_fields s) \<and>
     s ! 4 = 45 \<and> s ! 7 = 45 \<and> s ! 10 = 84 \<and> s ! 13 = 58 \<and> s ! 16 = 58 \<and> s ! 19 = 90"

definition timestamp_value :: "str \<Rightarrow> nat list" where
  "timestamp_value s = map decimal (timestamp_fields s)"

section \<open>Inputs for the examples\<close>

text \<open>
  A local model for the examples: it prints 116 letters, a space and 10 more letters, and
  exits with 0.
\<close>

definition long_output :: bytes where
  "long_output = replicate 116 97 @ [32] @ replicate 10 98"

definition run_long :: "str list \<Rightarrow> bytes \<Rightarrow> nat \<Rightarrow> error + completed_process" where
  "run_long args input timeout = Inr \<lparr>returncode = 0, stdout = long_output, stderr = []\<rparr>"

text \<open>
  A local model that prints a given output and exits with 0, and three outputs: a short text
  between spaces, two lines, and the 200 letters of the test-suite. A hosted model that
  answers with one given choice. A \<^verbatim>\<open>str(e)\<close> for the examples.
\<close>

definition run_output :: "bytes \<Rightarrow> str list \<Rightarrow> bytes \<Rightarrow> nat \<Rightarrow> error + completed_process" where
  "run_output out args input timeout = Inr \<lparr>returncode = 0, stdout = out, stderr = []\<rparr>"

definition padded_output :: bytes where
  "padded_output = ustr '' hi '' @ [10]"

definition two_lines_output :: bytes where
  "two_lines_output = ustr ''short'' @ [10] @ replicate 200 121"

definition letters_output :: bytes where
  "letters_output = replicate 200 65"

definition complete_fixed :: "str \<Rightarrow> str \<Rightarrow> error + str list" where
  "complete_fixed answer prompt = Inr [answer]"

definition demo_exc_str :: "error \<Rightarrow> str" where
  "demo_exc_str e = ustr ''error''"

text \<open>
  Two more local models: one exits with status 1, one cannot be started, and a stand-in for
  \<^verbatim>\<open>generate_description\<close> that answers with a fixed text, as the test-suite patches it.
\<close>

definition run_exit_1 :: "str list \<Rightarrow> bytes \<Rightarrow> nat \<Rightarrow> error + completed_process" where
  "run_exit_1 args input timeout =
     Inr \<lparr>returncode = 1, stdout = [], stderr = ustr ''Error running ollama''\<rparr>"




text \<open>
  A run of the summarizer for the examples: three repositories are listed, \<^verbatim>\<open>no-docs\<close> has
  no readme (404), the local model answers \<^verbatim>\<open>AI summary\<close>. The demonstration
  \<^verbatim>\<open>datetime\<close> library keeps a date as its string and formats it unchanged.
\<close>

definition demo_dt :: "str datetime_lib" where
  "demo_dt =
     \<lparr>now_in_report = ustr ''November 04, 2026'', now_in_main = ustr ''20261104_120000'',
      strptime = (\<lambda>s format. Inr s), strftime = (\<lambda>d format. d)\<rparr>"

definition repo_alpha :: repo where
  "repo_alpha =
     \<lparr>name = ustr ''alpha'', description = None, html_url = ustr ''https://github.com/demo-user/alpha'',
      created_at = ustr ''2024-01-01T12:00:00Z'', updated_at = ustr ''2024-09-01T12:00:00Z'',
      stargazers_count = Some 1, forks_count = Some 2, open_issues_count = Some 3,
      languages = None, ai_summary = None, readme_content = None\<rparr>"

definition repo_nodocs :: repo where
  "repo_nodocs =
     \<lparr>name = ustr ''no-docs'', description = None,
      html_url = ustr ''https://github.com/demo-user/no-docs'',
      created_at = ustr ''2023-01-01T12:00:00Z'', updated_at = ustr ''2024-09-03T12:00:00Z'',
      stargazers_count = Some 7, forks_count = Some 5, open_issues_count = Some 0,
      languages = None, ai_summary = None, readme_content = None\<rparr>"

definition repo_beta :: repo where
  "repo_beta =
     \<lparr>name = ustr ''beta'', description = None, html_url = ustr ''https://github.com/demo-user/beta'',
      created_at = ustr ''2023-01-01T12:00:00Z'', updated_at = ustr ''2024-09-02T12:00:00Z'',
      stargazers_count = Some 3, forks_count = Some 0, open_issues_count = Some 0,
      languages = None, ai_summary = None, readme_content = None\<rparr>"

definition documented :: "repo \<Rightarrow> repo" where
  "documented repo =
     repo\<lparr>languages := Some [(ustr ''Python'', 1024), (ustr ''JavaScript'', 256)],
          ai_summary := Some (ustr ''AI summary''),
          readme_content := Some (ustr ''Hello World!'')\<rparr>"

definition run_summary :: "str list \<Rightarrow> bytes \<Rightarrow> nat \<Rightarrow> error + completed_process" where
  "run_summary args input timeout =
     Inr \<lparr>returncode = 0, stdout = ustr ''AI summary'', stderr = []\<rparr>"

definition demo_world :: world where
  "demo_world =
     \<lparr>GITHUB_USERNAME = ustr ''demo-user'', OLLAMA_MODEL = ustr ''llama3.2:latest'',
      repos_endpoint =
        (\<lambda>username per_page page.
           if page = 1 then \<lparr>status_code = 200, json = [repo_alpha, repo_nodocs, repo_beta]\<rparr>
           else \<lparr>status_code = 200, json = []\<rparr>),
      readme_endpoint =
        (\<lambda>owner repo.
           if repo = ustr ''no-docs''
           then \<lparr>status_code = 404, json = \<lparr>content = None, encoding = None\<rparr>\<rparr>
           else readme_hello owner repo),
      languages_endpoint = languages_ok,
      completion_backend = (\<lambda>prompt. Inl BackendError),
      process_backend = run_summary,
      console_print = print_utf8,
      exception_text = demo_exc_str\<rparr>"

definition demo_report :: str where
  "demo_report =
     report_head (ustr ''November 04, 2026'') 2 4 2
     @ section_text 1 (ustr ''beta'') (ustr ''https://github.com/demo-user/beta'')
         ([96] @ ustr ''Python'' @ [96] @ ustr '' '' @ [96] @ ustr ''JavaScript'' @ [96])
         (ustr ''2023-01-01T12:00:00Z'') (ustr ''2024-09-02T12:00:00Z'')
         ([0x2B50] @ ustr '' 3 stars'') (ustr ''AI summary'')
     @ section_text 2 (ustr ''alpha'') (ustr ''https://github.com/demo-user/alpha'')
         ([96] @ ustr ''Python'' @ [96] @ ustr '' '' @ [96] @ ustr ''JavaScript'' @ [96])
         (ustr ''2024-01-01T12:00:00Z'') (ustr ''2024-09-01T12:00:00Z'')
         ([0x2B50] @ ustr '' 1 stars | '' @ [0x1F374] @ ustr '' 2 forks | '' @ [0x1F4DD]
          @ ustr '' 3 open issues'')
         (ustr ''AI summary'')
     @ report_foot (ustr ''demo-user'')"

definition demo_log :: "event list" where
  "demo_log =
     [Sleep 2, Sleep 2, WriteFile (ustr ''github_projects_report_20261104_120000.md'') demo_report]"

section \<open>Properties of the Repository Lister\<close>

lemma list_pages_stop:
  assumes "page \<le> k"
    and "\<forall>p. page \<le> p \<and> p \<le> k \<longrightarrow> raise_for_status (get p) = Inr ()"
    and "\<forall>p. page \<le> p \<and> p < k \<longrightarrow> json (get p) \<noteq> []"
    and "json (get k) = []"
  shows "list_pages get page repos reqs =
           Some (Inr (repos @ concat (map (\<lambda>p. json (get p)) [page..<k])), reqs @ [page..<Suc k])"
  using assms
proof (induction "k - page" arbitrary: page repos reqs)
  case 0
  then have "page = k" by simp
  with 0 show ?case
    by (subst list_pages.simps) (simp add: Let_def)
next
  case (Suc n)
  then have lt: "page < k" by simp
  have ih: "list_pages get (Suc page) (repos @ json (get page)) (reqs @ [page]) =
      Some (Inr ((repos @ json (get page)) @ concat (map (\<lambda>p. json (get p)) [Suc page..<k])),
            (reqs @ [page]) @ [Suc page..<Suc k])"
    using Suc.hyps(2) Suc.prems lt by (intro Suc.hyps(1)) auto
  have ok: "raise_for_status (get page) = Inr ()" and ne: "json (get page) \<noteq> []"
    using Suc.prems lt by auto
  have u1: "[page..<k] = page # [Suc page..<k]"
    using lt by (simp add: upt_conv_Cons)
  have u2: "[page..<Suc k] = page # [Suc page..<Suc k]"
    using lt by (simp add: upt_conv_Cons del: upt_Suc)
  show ?case
    by (subst list_pages.simps) (simp add: Let_def ok ne ih u1 u2 del: upt_Suc)
qed

text \<open>An HTTP error on page \<open>k\<close>, after non-empty pages, is propagated; nothing is returned.\<close>

lemma list_pages_error:
  assumes "page \<le> k"
    and "\<forall>p. page \<le> p \<and> p < k \<longrightarrow> raise_for_status (get p) = Inr ()"
    and "\<forall>p. page \<le> p \<and> p < k \<longrightarrow> json (get p) \<noteq> []"
    and "raise_for_status (get k) = Inl e"
  shows "list_pages get page repos reqs = Some (Inl e, reqs @ [page..<Suc k])"
  using assms
proof (induction "k - page" arbitrary: page repos reqs)
  case 0
  then have "page = k" by simp
  with 0 show ?case
    by (subst list_pages.simps) (simp add: Let_def)
next
  case (Suc n)
  then have lt: "page < k" by simp
  have ih: "list_pages get (Suc page) (repos @ json (get page)) (reqs @ [page]) =
      Some (Inl e, (reqs @ [page]) @ [Suc page..<Suc k])"
    using Suc.hyps(2) Suc.prems lt by (intro Suc.hyps(1)) auto
  have ok: "raise_for_status (get page) = Inr ()" and ne: "json (get page) \<noteq> []"
    using Suc.prems lt by auto
  have u2: "[page..<Suc k] = page # [Suc page..<Suc k]"
    using lt by (simp add: upt_conv_Cons del: upt_Suc)
  show ?case
    by (subst list_pages.simps) (simp add: Let_def ok ne ih u2 del: upt_Suc)
qed

text \<open>The loop returns only if some page from the current one on is empty or an error.\<close>

lemma list_pages_returns_stop:
  assumes ret: "list_pages get page repos reqs = Some y"
  shows "\<exists>p\<ge>page. raise_for_status (get p) \<noteq> Inr () \<or> json (get p) = []"
proof (rule list_pages.raw_induct [where P = "\<lambda>get page repos reqs y.
     \<exists>p\<ge>page. raise_for_status (get p) \<noteq> Inr () \<or> json (get p) = []"
     and get = get and page = page and repos = repos and reqs = reqs and y = y], goal_cases)
  case (1 f get page repos reqs y)
  show ?case
  proof (cases "raise_for_status (get page) = Inr () \<and> json (get page) \<noteq> []")
    case True
    with 1(2) have "f get (page + 1) (repos @ json (get page)) (reqs @ [page]) = Some y"
      by (simp add: Let_def)
    from 1(1) [OF this] obtain p where p: "p \<ge> page + 1"
      "raise_for_status (get p) \<noteq> Inr () \<or> json (get p) = []" by blast
    from p(1) have "p \<ge> page" by simp
    with p(2) show ?thesis by blast
  next
    case False
    then show ?thesis by blast
  qed
next
  case 2
  show ?case by (rule ret)
qed

lemma list_pages_diverges:
  assumes "\<forall>p\<ge>page. raise_for_status (get p) = Inr () \<and> json (get p) \<noteq> []"
  shows "list_pages get page repos reqs = None"
proof (cases "list_pages get page repos reqs")
  case None
  then show ?thesis .
next
  case (Some y)
  from list_pages_returns_stop [OF this] assms show ?thesis by blast
qed

text \<open>
  Claim C1. Let page \<open>k\<close> be the first page of the listing that has no entries, every page
  up to it being answered without an HTTP error. Then \<^verbatim>\<open>list_public_repos\<close> returns, it
  has requested exactly the pages \<open>1, 2, ..., k\<close> in that order (with the fixed page size 50),
  and its result is the concatenation of the pages \<open>1, ..., k - 1\<close> in the order the server
  gave them.
\<close>

theorem list_public_repos_pages:
  assumes "1 \<le> k"
    and "\<forall>p. 1 \<le> p \<and> p \<le> k \<longrightarrow> raise_for_status (requests_get username 50 p) = Inr ()"
    and "\<forall>p. 1 \<le> p \<and> p < k \<longrightarrow> json (requests_get username 50 p) \<noteq> []"
    and "json (requests_get username 50 k) = []"
  shows "list_public_repos requests_get username =
           Some (Inr (concat (map (\<lambda>p. json (requests_get username 50 p)) [1..<k])), [1..<Suc k])"
  unfolding list_public_repos_def
  using list_pages_stop [of 1 k "requests_get username 50" "[]" "[]"] assms by simp

theorem list_public_repos_pages_witness:
  "list_public_repos demo_get [117] = Some (Inr [10, 11, 12], [1, 2, 3])"
proof -
  have a: "\<forall>p. 1 \<le> p \<and> p \<le> 3 \<longrightarrow> raise_for_status (demo_get [117] 50 p) = Inr ()"
    by (simp add: demo_get_def raise_for_status_def)
  have b: "\<forall>p. 1 \<le> p \<and> p < 3 \<longrightarrow> json (demo_get [117] 50 p) \<noteq> []"
    by (simp add: demo_get_def)
  have c: "json (demo_get [117] 50 3) = []"
    by (simp add: demo_get_def)
  have d: "concat (map (\<lambda>p. json (demo_get [117] 50 p)) [1..<3]) = [10, 11, 12]"
    by (simp add: demo_get_def upt_rec)
  have e: "[1..<Suc 3] = [1, 2, 3::nat]"
    by (simp add: upt_rec)
  show ?thesis
    using list_public_repos_pages [of 3 demo_get "[117]", OF _ a b c]
    unfolding d e by simp
qed

section \<open>Properties of the codecs\<close>

lemma emit_Inr_iff: "emit c r = Inr t \<longleftrightarrow> (\<exists>t'. r = Inr t' \<and> t = c # t')"
  by (auto simp: emit_def split: sum.splits)

lemma utf8_decode_ignore_total: "\<exists>t. utf8_decode True s = Inr t"
proof (induction "True" s rule: utf8_decode.induct)
  case 1
  show ?case by simp
next
  case (2 ch s1)
  obtain r n where f: "utf8_first ch s1 = (r, n)" by (cases "utf8_first ch s1")
  show ?case
  proof (cases r)
    case None
    with f 2 show ?thesis by simp
  next
    case (Some c)
    with f 2 show ?thesis by (simp add: emit_Inr_iff)
  qed
qed

lemma utf8_decode_strict_ignore:
  "utf8_decode ignore s = Inr t \<Longrightarrow> utf8_decode True s = Inr t"
proof (induction ignore s arbitrary: t rule: utf8_decode.induct)
  case (1 ignore)
  then show ?case by simp
next
  case (2 ignore ch s1)
  obtain r n where f: "utf8_first ch s1 = (r, n)" by (cases "utf8_first ch s1")
  show ?case
  proof (cases r)
    case None
    with f 2 show ?thesis by (simp split: if_splits)
  next
    case (Some c)
    with f 2(3) obtain t' where t': "utf8_decode ignore (drop (n - 1) s1) = Inr t'" "t = c # t'"
      by (auto simp: emit_Inr_iff)
    from 2 f Some t' show ?thesis by (simp add: emit_Inr_iff)
  qed
qed

section \<open>Properties of the Readme Fetcher and the Language Fetcher\<close>

lemma b64_hello: "b64decode (ustr ''SGVsbG8gV29ybGQh'') = Inr (ustr ''Hello World!'')"
  by (simp add: b64decode_def ustr_def b64_value_def)

lemma utf8_hello: "utf8_decode ignore (ustr ''Hello World!'') = Inr (ustr ''Hello World!'')"
  by (simp add: ustr_def emit_def utf8_first_def)

text \<open>
  A success response that is not marked base64 also gives \<^verbatim>\<open>None\<close>: the absent marker
  does not tell a 404 from an undecoded body.
\<close>

theorem get_readme_absent_iff_counterexample:
  "get_readme readme_plain (ustr ''owner'') (ustr ''repo'') = Inr None \<and>
   status_code (readme_plain (ustr ''owner'') (ustr ''repo'')) = 200"
  by (simp add: get_readme_def readme_plain_def raise_for_status_def ustr_def)

text \<open>
  Claim C2, as the code has it. \<^verbatim>\<open>get_readme\<close> returns \<^verbatim>\<open>None\<close> exactly when the status
  is 404, or the response is no HTTP error and its content is missing or empty or its encoding
  is not \<^verbatim>\<open>"base64"\<close>. For a response that is neither 404 nor an HTTP error, with a
  non-empty content marked base64 that decodes to the bytes \<open>b\<close>, the returned text is the
  UTF-8 decoding of \<open>b\<close> with undecodable bytes dropped; when \<open>b\<close> is valid UTF-8 it is
  the UTF-8 decoding of \<open>b\<close>.
\<close>

theorem get_readme_result:
  "(get_readme requests_get owner repo = Inr None \<longleftrightarrow>
      status_code (requests_get owner repo) = 404 \<or>
      (raise_for_status (requests_get owner repo) = Inr () \<and>
       (content (json (requests_get owner repo)) = None \<or>
        content (json (requests_get owner repo)) = Some [] \<or>
        encoding (json (requests_get owner repo)) \<noteq> Some (ustr ''base64''))))
   \<and>
   (\<forall>c b. status_code (requests_get owner repo) \<noteq> 404 \<and>
      raise_for_status (requests_get owner repo) = Inr () \<and>
      content (json (requests_get owner repo)) = Some c \<and> c \<noteq> [] \<and>
      encoding (json (requests_get owner repo)) = Some (ustr ''base64'') \<and>
      b64decode c = Inr b \<longrightarrow>
      (\<exists>text. utf8_decode True b = Inr text \<and>
         get_readme requests_get owner repo = Inr (Some text) \<and>
         (\<forall>t. utf8_decode False b = Inr t \<longrightarrow> text = t)))"
proof (intro conjI allI impI)
  show "get_readme requests_get owner repo = Inr None \<longleftrightarrow>
      status_code (requests_get owner repo) = 404 \<or>
      (raise_for_status (requests_get owner repo) = Inr () \<and>
       (content (json (requests_get owner repo)) = None \<or>
        content (json (requests_get owner repo)) = Some [] \<or>
        encoding (json (requests_get owner repo)) \<noteq> Some (ustr ''base64'')))"
    by (auto simp: get_readme_def Let_def split: sum.splits option.splits)
next
  fix c b
  assume h: "status_code (requests_get owner repo) \<noteq> 404 \<and>
      raise_for_status (requests_get owner repo) = Inr () \<and>
      content (json (requests_get owner repo)) = Some c \<and> c \<noteq> [] \<and>
      encoding (json (requests_get owner repo)) = Some (ustr ''base64'') \<and>
      b64decode c = Inr b"
  obtain s where t: "utf8_decode True b = Inr s"
    using utf8_decode_ignore_total by blast
  have "get_readme requests_get owner repo = Inr (Some s)"
    using h t by (simp add: get_readme_def Let_def)
  moreover have "\<forall>t. utf8_decode False b = Inr t \<longrightarrow> s = t"
    using t utf8_decode_strict_ignore by fastforce
  ultimately show "\<exists>text. utf8_decode True b = Inr text \<and>
         get_readme requests_get owner repo = Inr (Some text) \<and>
         (\<forall>t. utf8_decode False b = Inr t \<longrightarrow> text = t)"
    using t by blast
qed


theorem get_readme_result_witness:
  "get_readme readme_hello (ustr ''owner'') (ustr ''repo'') = Inr (Some (ustr ''Hello World!''))"
proof -
  let ?r = "readme_hello (ustr ''owner'') (ustr ''repo'')"
  have pre: "status_code ?r \<noteq> 404 \<and> raise_for_status ?r = Inr () \<and>
      content (json ?r) = Some (ustr ''SGVsbG8gV29ybGQh'') \<and> ustr ''SGVsbG8gV29ybGQh'' \<noteq> [] \<and>
      encoding (json ?r) = Some (ustr ''base64'') \<and>
      b64decode (ustr ''SGVsbG8gV29ybGQh'') = Inr (ustr ''Hello World!'')"
    using b64_hello by (simp add: readme_hello_def raise_for_status_def ustr_def)
  from get_readme_result [of readme_hello "ustr ''owner''" "ustr ''repo''"]
  have "\<forall>c b. status_code ?r \<noteq> 404 \<and> raise_for_status ?r = Inr () \<and>
      content (json ?r) = Some c \<and> c \<noteq> [] \<and>
      encoding (json ?r) = Some (ustr ''base64'') \<and> b64decode c = Inr b \<longrightarrow>
      (\<exists>s. utf8_decode True b = Inr s \<and>
         get_readme readme_hello (ustr ''owner'') (ustr ''repo'') = Inr (Some s) \<and>
         (\<forall>t. utf8_decode False b = Inr t \<longrightarrow> s = t))"
    by (rule conjunct2)
  with pre obtain s where "utf8_decode True (ustr ''Hello World!'') = Inr s"
    "get_readme readme_hello (ustr ''owner'') (ustr ''repo'') = Inr (Some s)"
    by blast
  then show ?thesis by (simp add: utf8_hello)
qed

text \<open>
  Claim C3. For a response of status 200 whose encoding is not \<^verbatim>\<open>"base64"\<close>, or whose
  content is missing or empty, \<^verbatim>\<open>get_readme\<close> returns \<^verbatim>\<open>None\<close>; nothing is decoded, so no
  decoding error can be raised.
\<close>

theorem get_readme_not_base64:
  assumes "status_code (requests_get owner repo) = 200"
    and "encoding (json (requests_get owner repo)) \<noteq> Some (ustr ''base64'') \<or>
         content (json (requests_get owner repo)) = None \<or>
         content (json (requests_get owner repo)) = Some []"
  shows "get_readme requests_get owner repo = Inr None"
  using assms
  by (auto simp: get_readme_def Let_def raise_for_status_def split: option.splits)

theorem get_readme_not_base64_witness:
  "status_code (readme_plain (ustr ''o'') (ustr ''r'')) = 200 \<and>
   encoding (json (readme_plain (ustr ''o'') (ustr ''r''))) = Some (ustr ''utf-8'') \<and>
   get_readme readme_plain (ustr ''o'') (ustr ''r'') = Inr None"
proof -
  have a: "status_code (readme_plain (ustr ''o'') (ustr ''r'')) = 200"
    by (simp add: readme_plain_def)
  have b: "encoding (json (readme_plain (ustr ''o'') (ustr ''r''))) \<noteq> Some (ustr ''base64'')"
    by (simp add: readme_plain_def ustr_def)
  have c: "encoding (json (readme_plain (ustr ''o'') (ustr ''r''))) = Some (ustr ''utf-8'')"
    by (simp add: readme_plain_def)
  from get_readme_not_base64 [of readme_plain "ustr ''o''" "ustr ''r''", OF a] b
  have "get_readme readme_plain (ustr ''o'') (ustr ''r'') = Inr None" by blast
  with a c show ?thesis by blast
qed

text \<open>
  Claim C6. \<^verbatim>\<open>get_repo_languages\<close> returns the empty mapping for every status other than
  200 and the decoded mapping, unchanged, for status 200. A failed fetch returns what a
  successful fetch of a repository without languages returns, so the caller cannot tell them
  apart.
\<close>

theorem get_repo_languages_result:
  "(status_code (requests_get owner repo) \<noteq> 200 \<longrightarrow>
      get_repo_languages requests_get owner repo = []) \<and>
   (status_code (requests_get owner repo) = 200 \<longrightarrow>
      get_repo_languages requests_get owner repo = json (requests_get owner repo)) \<and>
   (status_code (requests_get owner repo) \<noteq> 200 \<longrightarrow>
      get_repo_languages requests_get owner repo = get_repo_languages languages_none owner repo)"
  by (simp add: get_repo_languages_def languages_none_def)

theorem get_repo_languages_result_witness:
  "get_repo_languages languages_ok (ustr ''o'') (ustr ''r'') =
     [(ustr ''Python'', 1024), (ustr ''JavaScript'', 256)] \<and>
   get_repo_languages languages_forbidden (ustr ''o'') (ustr ''r'') = [] \<and>
   get_repo_languages languages_forbidden (ustr ''o'') (ustr ''r'') =
     get_repo_languages languages_none (ustr ''o'') (ustr ''r'')"
proof -
  have ok: "status_code (languages_ok (ustr ''o'') (ustr ''r'')) = 200"
    "json (languages_ok (ustr ''o'') (ustr ''r'')) =
       [(ustr ''Python'', 1024), (ustr ''JavaScript'', 256)]"
    by (simp_all add: languages_ok_def)
  have bad: "status_code (languages_forbidden (ustr ''o'') (ustr ''r'')) \<noteq> 200"
    by (simp add: languages_forbidden_def)
  have "get_repo_languages languages_ok (ustr ''o'') (ustr ''r'') =
      json (languages_ok (ustr ''o'') (ustr ''r''))"
    using get_repo_languages_result [of languages_ok "ustr ''o''" "ustr ''r''"] ok(1) by blast
  moreover have "get_repo_languages languages_forbidden (ustr ''o'') (ustr ''r'') = [] \<and>
    get_repo_languages languages_forbidden (ustr ''o'') (ustr ''r'') =
      get_repo_languages languages_none (ustr ''o'') (ustr ''r'')"
    using get_repo_languages_result [of languages_forbidden "ustr ''o''" "ustr ''r''"] bad
    by blast
  ultimately show ?thesis
    unfolding ok(2) by blast
qed

section \<open>Properties of the description post-processing\<close>

lemma length_rstrip_le: "length (rstrip s) \<le> length s"
  unfolding rstrip_def using length_dropWhile_le [of isspace "rev s"] by simp

lemma rstrip_no_space: "s \<noteq> [] \<Longrightarrow> \<not> isspace (last s) \<Longrightarrow> rstrip s = s"
  by (cases s rule: rev_cases) (simp_all add: rstrip_def)

lemma rstrip_space: "s \<noteq> [] \<Longrightarrow> isspace (last s) \<Longrightarrow> length (rstrip s) < length s"
proof (cases s rule: rev_cases)
  case Nil
  assume "s \<noteq> []"
  with Nil show ?thesis by simp
next
  case (snoc ys z)
  assume "isspace (last s)"
  with snoc have "rstrip s = rstrip ys" by (simp add: rstrip_def)
  with snoc length_rstrip_le [of ys] show ?thesis by simp
qed

lemma length_ellipsis: "length (ustr ''...'') = 3"
  by (simp add: ustr_def)

lemma last_take_117: "length d > 120 \<Longrightarrow> take 117 d \<noteq> [] \<and> last (take 117 d) = d ! 116"
proof -
  assume "length d > 120"
  then have l: "length (take 117 d) = 117" by simp
  then have ne: "take 117 d \<noteq> []" by auto
  have "last (take 117 d) = take 117 d ! (length (take 117 d) - 1)"
    using ne by (rule last_conv_nth)
  also have "\<dots> = d ! 116" using l by simp
  finally show ?thesis using ne by simp
qed

lemma utf8_decode_ascii: "\<forall>c\<in>set s. c < 0x80 \<Longrightarrow> utf8_decode ignore s = Inr s"
  by (induction s) (simp_all add: utf8_first_def emit_def)

lemma utf8_encode_no_surrogate:
  "\<forall>c\<in>set s. \<not> (0xD800 \<le> c \<and> c < 0xE000) \<Longrightarrow> \<exists>b. utf8_encode s = Inr b"
proof (induction s)
  case Nil
  then show ?case by simp
next
  case (Cons c cs)
  then obtain bs where "utf8_encode cs = Inr bs" by auto
  moreover have "\<exists>b. utf8_encode_char c = Inr b"
    using Cons.prems by (simp add: utf8_encode_char_def)
  ultimately show ?case by auto
qed

lemma ustr_below_256: "c \<in> set (ustr cs) \<Longrightarrow> c < 256"
  by (auto simp: ustr_def)

lemma ustr_no_surrogate: "c \<in> set (ustr cs) \<Longrightarrow> \<not> (0xD800 \<le> c \<and> c < 0xE000)"
  using ustr_below_256 [of c cs] by simp

lemma ollama_prompt_None_encodes:
  "\<forall>c\<in>set repo_name. \<not> (0xD800 \<le> c \<and> c < 0xE000) \<Longrightarrow>
     \<exists>b. utf8_encode (ollama_prompt repo_name None) = Inr b"
  by (rule utf8_encode_no_surrogate) (auto simp: ollama_prompt_def dest: ustr_no_surrogate)


lemma print_utf8_encodable:
  "\<forall>c\<in>set s. \<not> (0xD800 \<le> c \<and> c < 0xE000) \<Longrightarrow> print_utf8 s = Inr ()"
proof -
  assume "\<forall>c\<in>set s. \<not> (0xD800 \<le> c \<and> c < 0xE000)"
  then have "\<forall>c\<in>set (s @ [10]). \<not> (0xD800 \<le> c \<and> c < 0xE000)" by simp
  from utf8_encode_no_surrogate [OF this] show ?thesis by (auto simp: print_utf8_def)
qed


lemma generate_description_ollama_success:
  assumes "utf8_encode (ollama_prompt repo_name readme) = Inr input"
    and "subprocess_run [ustr ''ollama'', ustr ''run'', model] input 120 = Inr result"
    and "returncode result = 0"
    and "utf8_decode False (stdout result) = Inr out"
  shows "generate_description_ollama print exc_str subprocess_run model repo_name readme =
           Inr (ensure_not_too_long (first_line (strip out)))"
  using assms by (simp add: generate_description_ollama_def try_except_def Let_def)

lemma generate_description_openai_success:
  assumes "completion_create (openai_prompt repo_name readme) = Inr (choice # choices)"
  shows "generate_description_openai print exc_str completion_create repo_name readme =
           Inr (ensure_not_too_long (strip choice))"
  using assms by (simp add: generate_description_openai_def try_except_def Let_def)

text \<open>
  Claim C4, as the code has it. The text of the model is first stripped of the whitespace
  around it (\<^verbatim>\<open>strip\<close>) and, in \<^verbatim>\<open>automate_ollama.py\<close>, cut before its first line feed.
  Let \<open>d\<close> be the text so obtained. If \<open>d\<close> has at most 120 characters,
  \<^verbatim>\<open>generate_description\<close> returns \<open>d\<close>. Otherwise it returns the first 117 characters of
  \<open>d\<close>, with the whitespace at their end removed, followed by the three characters
  \<^verbatim>\<open>...\<close>. In both cases the result has at most 120 characters; in the second it has
  exactly 120 (the 117 characters and the marker) when the 117th character of \<open>d\<close> is not
  whitespace, and fewer when it is.
\<close>

theorem description_post_processing:
  "(completion_create (openai_prompt repo_name readme) = Inr (raw # choices) \<longrightarrow>
      generate_description_openai print exc_str completion_create repo_name readme =
        Inr (let d = strip raw
             in if length d > 120 then rstrip (take 117 d) @ ustr ''...'' else d)) \<and>
   (utf8_encode (ollama_prompt repo_name readme) = Inr input \<and>
    subprocess_run [ustr ''ollama'', ustr ''run'', model] input 120 = Inr result \<and>
    returncode result = 0 \<and> utf8_decode False (stdout result) = Inr out \<longrightarrow>
      generate_description_ollama print exc_str subprocess_run model repo_name readme =
        Inr (let d = first_line (strip out)
             in if length d > 120 then rstrip (take 117 d) @ ustr ''...'' else d)) \<and>
   length (if length d > 120 then rstrip (take 117 d) @ ustr ''...'' else d) \<le> 120 \<and>
   (length d > 120 \<and> \<not> isspace (d ! 116) \<longrightarrow>
      rstrip (take 117 d) @ ustr ''...'' = take 117 d @ ustr ''...'' \<and>
      length (take 117 d @ ustr ''...'') = 120) \<and>
   (length d > 120 \<and> isspace (d ! 116) \<longrightarrow>
      length (rstrip (take 117 d) @ ustr ''...'') < 120)"
proof (intro conjI impI)
  assume "completion_create (openai_prompt repo_name readme) = Inr (raw # choices)"
  then have "generate_description_openai print exc_str completion_create repo_name readme =
      Inr (ensure_not_too_long (strip raw))"
    by (rule generate_description_openai_success)
  then show "generate_description_openai print exc_str completion_create repo_name readme =
        Inr (let d = strip raw
             in if length d > 120 then rstrip (take 117 d) @ ustr ''...'' else d)"
    by (simp add: ensure_not_too_long_def Let_def)
next
  assume "utf8_encode (ollama_prompt repo_name readme) = Inr input \<and>
    subprocess_run [ustr ''ollama'', ustr ''run'', model] input 120 = Inr result \<and>
    returncode result = 0 \<and> utf8_decode False (stdout result) = Inr out"
  then have "generate_description_ollama print exc_str subprocess_run model repo_name readme =
      Inr (ensure_not_too_long (first_line (strip out)))"
    by (intro generate_description_ollama_success [where input = input and result = result])
       simp_all
  then show "generate_description_ollama print exc_str subprocess_run model repo_name readme =
        Inr (let d = first_line (strip out)
             in if length d > 120 then rstrip (take 117 d) @ ustr ''...'' else d)"
    by (simp add: ensure_not_too_long_def Let_def)
next
  show "length (if length d > 120 then rstrip (take 117 d) @ ustr ''...'' else d) \<le> 120"
    using length_rstrip_le [of "take 117 d"] by (simp add: length_ellipsis)
next
  assume "length d > 120 \<and> \<not> isspace (d ! 116)"
  with last_take_117 [of d] have "rstrip (take 117 d) = take 117 d"
    by (intro rstrip_no_space) simp_all
  then show "rstrip (take 117 d) @ ustr ''...'' = take 117 d @ ustr ''...''" by simp
next
  assume "length d > 120 \<and> \<not> isspace (d ! 116)"
  then show "length (take 117 d @ ustr ''...'') = 120" by (simp add: length_ellipsis)
next
  assume "length d > 120 \<and> isspace (d ! 116)"
  with last_take_117 [of d] have "length (rstrip (take 117 d)) < length (take 117 d)"
    by (intro rstrip_space) simp_all
  then show "length (rstrip (take 117 d) @ ustr ''...'') < 120"
    by (simp add: length_ellipsis)
qed

lemma strip_long_output: "first_line (strip long_output) = long_output"
proof -
  have a: "\<not> isspace 97" "\<not> isspace 98" by (simp_all add: isspace_def)
  have l: "lstrip long_output = long_output"
    by (simp add: lstrip_def long_output_def a)
  have "long_output \<noteq> [] \<and> last long_output = 98" by (simp add: long_output_def)
  then have r: "rstrip long_output = long_output" using a by (intro rstrip_no_space) simp_all
  have "\<forall>c\<in>set long_output. c \<noteq> 10" by (auto simp: long_output_def)
  then have "first_line long_output = long_output"
    by (simp add: first_line_def takeWhile_eq_all_conv)
  with l r show ?thesis by (simp add: strip_def)
qed

lemma ensure_long_output: "ensure_not_too_long long_output = replicate 116 97 @ ustr ''...''"
proof -
  have a: "\<not> isspace 97" "isspace 32" by (simp_all add: isspace_def)
  have t: "take 117 long_output = replicate 116 97 @ [32]" by (simp add: long_output_def)
  have "rstrip (replicate 116 97 @ [32]) = rstrip (replicate 116 97)"
    using a by (simp add: rstrip_def)
  also have "\<dots> = replicate 116 97"
    using a by (intro rstrip_no_space) simp_all
  finally show ?thesis using t by (simp add: ensure_not_too_long_def long_output_def)
qed

lemma demo_prompt_encodes:
  "\<exists>b. utf8_encode (ollama_prompt (ustr ''repo'') None) = Inr b"
proof -
  have "\<forall>c\<in>set (ustr ''repo''). \<not> (0xD800 \<le> c \<and> c < 0xE000)"
    using ustr_no_surrogate by blast
  from ollama_prompt_None_encodes [OF this] show ?thesis .
qed

lemma padded_output_line: "first_line (strip padded_output) = ustr ''hi''"
  by (simp add: padded_output_def first_line_def strip_def lstrip_def rstrip_def isspace_def
      ustr_def)

lemma two_lines_output_line: "first_line (strip two_lines_output) = ustr ''short''"
proof -
  have a: "\<not> isspace 121" by (simp add: isspace_def)
  have l: "lstrip two_lines_output = two_lines_output"
    by (simp add: lstrip_def two_lines_output_def isspace_def ustr_def)
  have "two_lines_output \<noteq> [] \<and> last two_lines_output = 121"
    by (simp add: two_lines_output_def)
  then have r: "rstrip two_lines_output = two_lines_output"
    using a by (intro rstrip_no_space) simp_all
  have "first_line two_lines_output = ustr ''short''"
    by (simp add: first_line_def two_lines_output_def ustr_def)
  with l r show ?thesis by (simp add: strip_def)
qed

lemma letters_output_line: "first_line (strip letters_output) = letters_output"
proof -
  have a: "\<not> isspace 65" by (simp add: isspace_def)
  have l: "lstrip letters_output = letters_output"
    by (simp add: lstrip_def letters_output_def a)
  have "letters_output \<noteq> [] \<and> last letters_output = 65" by (simp add: letters_output_def)
  then have r: "rstrip letters_output = letters_output"
    using a by (intro rstrip_no_space) simp_all
  have "\<forall>c\<in>set letters_output. c \<noteq> 10" by (auto simp: letters_output_def)
  then have "first_line letters_output = letters_output"
    by (simp add: first_line_def takeWhile_eq_all_conv)
  with l r show ?thesis by (simp add: strip_def)
qed

lemma decode_outputs:
  "utf8_decode False long_output = Inr long_output"
  "utf8_decode False padded_output = Inr padded_output"
  "utf8_decode False two_lines_output = Inr two_lines_output"
  "utf8_decode False letters_output = Inr letters_output"
proof -
  show "utf8_decode False long_output = Inr long_output"
    by (rule utf8_decode_ascii) (auto simp: long_output_def)
  show "utf8_decode False padded_output = Inr padded_output"
    by (rule utf8_decode_ascii) (auto simp: padded_output_def ustr_def)
  show "utf8_decode False two_lines_output = Inr two_lines_output"
    by (rule utf8_decode_ascii) (auto simp: two_lines_output_def ustr_def)
  show "utf8_decode False letters_output = Inr letters_output"
    by (rule utf8_decode_ascii) (auto simp: letters_output_def)
qed

text \<open>
  Three outputs of the local model at which the claim fails as stated. 127 characters whose
  117th is a space: the description has 119 characters, the first 116 and the marker. A
  text of 5 characters, \<^verbatim>\<open>" hi "\<close> and a line feed: the description is \<^verbatim>\<open>hi\<close>, not the
  text unchanged. The line \<^verbatim>\<open>short\<close> followed by a line of 200 letters, 206 characters
  in all: the description is \<^verbatim>\<open>short\<close>, without a marker.
\<close>

theorem description_unchanged_or_120_counterexample:
  "generate_description_ollama print_utf8 demo_exc_str run_long (ustr ''llama3.2:latest'')
     (ustr ''repo'') None = Inr (replicate 116 97 @ ustr ''...'') \<and>
   length long_output = 127 \<and>
   length (replicate 116 (97::nat) @ ustr ''...'') = 119 \<and>
   generate_description_ollama print_utf8 demo_exc_str (run_output padded_output)
     (ustr ''llama3.2:latest'') (ustr ''repo'') None = Inr (ustr ''hi'') \<and>
   length padded_output = 5 \<and>
   generate_description_ollama print_utf8 demo_exc_str (run_output two_lines_output)
     (ustr ''llama3.2:latest'') (ustr ''repo'') None = Inr (ustr ''short'') \<and>
   length two_lines_output = 206"
proof -
  let ?m = "ustr ''llama3.2:latest''"
  from demo_prompt_encodes
  obtain b where b: "utf8_encode (ollama_prompt (ustr ''repo'') None) = Inr b" by blast
  have "generate_description_ollama print_utf8 demo_exc_str run_long ?m (ustr ''repo'') None =
      Inr (ensure_not_too_long (first_line (strip long_output)))"
    by (rule generate_description_ollama_success [OF b, where result =
          "\<lparr>returncode = 0, stdout = long_output, stderr = []\<rparr>"])
       (simp_all add: run_long_def decode_outputs)
  then have g: "generate_description_ollama print_utf8 demo_exc_str run_long ?m (ustr ''repo'') None =
      Inr (replicate 116 97 @ ustr ''...'')"
    by (simp only: strip_long_output ensure_long_output)
  have n: "length long_output = 127" by (simp add: long_output_def)
  have m: "length (replicate 116 (97::nat) @ ustr ''...'') = 119"
    by (simp add: length_ellipsis)
  have "generate_description_ollama print_utf8 demo_exc_str (run_output padded_output) ?m
      (ustr ''repo'') None = Inr (ensure_not_too_long (first_line (strip padded_output)))"
    by (rule generate_description_ollama_success [OF b, where result =
          "\<lparr>returncode = 0, stdout = padded_output, stderr = []\<rparr>"])
       (simp_all add: run_output_def decode_outputs)
  then have p: "generate_description_ollama print_utf8 demo_exc_str (run_output padded_output) ?m
      (ustr ''repo'') None = Inr (ustr ''hi'')"
    unfolding padded_output_line by (simp add: ensure_not_too_long_def ustr_def)
  have pn: "length padded_output = 5" by (simp add: padded_output_def ustr_def)
  have "generate_description_ollama print_utf8 demo_exc_str (run_output two_lines_output) ?m
      (ustr ''repo'') None = Inr (ensure_not_too_long (first_line (strip two_lines_output)))"
    by (rule generate_description_ollama_success [OF b, where result =
          "\<lparr>returncode = 0, stdout = two_lines_output, stderr = []\<rparr>"])
       (simp_all add: run_output_def decode_outputs)
  then have t: "generate_description_ollama print_utf8 demo_exc_str (run_output two_lines_output)
      ?m (ustr ''repo'') None = Inr (ustr ''short'')"
    unfolding two_lines_output_line by (simp add: ensure_not_too_long_def ustr_def)
  have tn: "length two_lines_output = 206" by (simp add: two_lines_output_def ustr_def)
  from g n m p pn t tn show ?thesis by blast
qed

theorem description_post_processing_witness:
  "generate_description_openai print_utf8 demo_exc_str
     (complete_fixed (ustr '' Repo concise description '')) (ustr ''repo'') None =
     Inr (ustr ''Repo concise description'') \<and>
   generate_description_ollama print_utf8 demo_exc_str run_long (ustr ''llama3.2:latest'')
     (ustr ''repo'') None = Inr (replicate 116 97 @ ustr ''...'') \<and>
   generate_description_ollama print_utf8 demo_exc_str (run_output letters_output)
     (ustr ''llama3.2:latest'') (ustr ''repo'') None = Inr (replicate 117 65 @ ustr ''...'') \<and>
   length (replicate 117 (65::nat) @ ustr ''...'') = 120"
proof -
  let ?m = "ustr ''llama3.2:latest''"
  from demo_prompt_encodes
  obtain b where b: "utf8_encode (ollama_prompt (ustr ''repo'') None) = Inr b" by blast
  have s: "strip (ustr '' Repo concise description '') = ustr ''Repo concise description''"
    by (simp add: strip_def lstrip_def rstrip_def isspace_def ustr_def)
  have sl: "\<not> length (ustr ''Repo concise description'') > 120" by (simp add: ustr_def)
  have "complete_fixed (ustr '' Repo concise description '') (openai_prompt (ustr ''repo'') None) =
      Inr (ustr '' Repo concise description '' # [])"
    by (simp add: complete_fixed_def)
  with description_post_processing [of "complete_fixed (ustr '' Repo concise description '')"
      "ustr ''repo''" None "ustr '' Repo concise description ''" "[]" print_utf8 demo_exc_str]
  have "generate_description_openai print_utf8 demo_exc_str
     (complete_fixed (ustr '' Repo concise description '')) (ustr ''repo'') None =
     Inr (let d = strip (ustr '' Repo concise description '')
          in if length d > 120 then rstrip (take 117 d) @ ustr ''...'' else d)"
    by blast
  then have o: "generate_description_openai print_utf8 demo_exc_str
     (complete_fixed (ustr '' Repo concise description '')) (ustr ''repo'') None =
     Inr (ustr ''Repo concise description'')"
    unfolding Let_def s using sl by simp
  have rl: "utf8_encode (ollama_prompt (ustr ''repo'') None) = Inr b \<and>
      run_long [ustr ''ollama'', ustr ''run'', ?m] b 120 =
        Inr \<lparr>returncode = 0, stdout = long_output, stderr = []\<rparr> \<and>
      returncode \<lparr>returncode = 0, stdout = long_output, stderr = []\<rparr> = 0 \<and>
      utf8_decode False (stdout \<lparr>returncode = 0, stdout = long_output, stderr = []\<rparr>) =
        Inr long_output"
    using b by (simp add: run_long_def decode_outputs)
  with description_post_processing [where subprocess_run = run_long and repo_name = "ustr ''repo''"
      and readme = None and input = b and model = "?m" and out = long_output
      and result = "\<lparr>returncode = 0, stdout = long_output, stderr = []\<rparr>"
      and print = print_utf8 and exc_str = demo_exc_str]
  have "generate_description_ollama print_utf8 demo_exc_str run_long ?m (ustr ''repo'') None =
      Inr (let d = first_line (strip long_output)
           in if length d > 120 then rstrip (take 117 d) @ ustr ''...'' else d)"
    by blast
  then have l: "generate_description_ollama print_utf8 demo_exc_str run_long ?m (ustr ''repo'') None =
      Inr (replicate 116 97 @ ustr ''...'')"
    unfolding Let_def strip_long_output
    using ensure_long_output by (simp add: ensure_not_too_long_def)
  have rt: "utf8_encode (ollama_prompt (ustr ''repo'') None) = Inr b \<and>
      run_output letters_output [ustr ''ollama'', ustr ''run'', ?m] b 120 =
        Inr \<lparr>returncode = 0, stdout = letters_output, stderr = []\<rparr> \<and>
      returncode \<lparr>returncode = 0, stdout = letters_output, stderr = []\<rparr> = 0 \<and>
      utf8_decode False (stdout \<lparr>returncode = 0, stdout = letters_output, stderr = []\<rparr>) =
        Inr letters_output"
    using b by (simp add: run_output_def decode_outputs)
  with description_post_processing [where subprocess_run = "run_output letters_output"
      and repo_name = "ustr ''repo''" and readme = None and input = b and model = "?m"
      and out = letters_output
      and result = "\<lparr>returncode = 0, stdout = letters_output, stderr = []\<rparr>"
      and print = print_utf8 and exc_str = demo_exc_str and d = letters_output]
  have e: "generate_description_ollama print_utf8 demo_exc_str (run_output letters_output) ?m
      (ustr ''repo'') None =
      Inr (let d = first_line (strip letters_output)
           in if length d > 120 then rstrip (take 117 d) @ ustr ''...'' else d)"
    and f: "length letters_output > 120 \<and> \<not> isspace (letters_output ! 116) \<longrightarrow>
      rstrip (take 117 letters_output) @ ustr ''...'' = take 117 letters_output @ ustr ''...'' \<and>
      length (take 117 letters_output @ ustr ''...'') = 120"
    by blast+
  have c: "length letters_output > 120 \<and> \<not> isspace (letters_output ! 116)"
    by (simp add: letters_output_def isspace_def)
  have t: "take 117 letters_output = replicate 117 65" by (simp add: letters_output_def)
  from f c have f': "rstrip (take 117 letters_output) @ ustr ''...'' = replicate 117 65 @ ustr ''...''"
    "length (replicate 117 (65::nat) @ ustr ''...'') = 120"
    unfolding t by blast+
  from e c f'(1) have a: "generate_description_ollama print_utf8 demo_exc_str
      (run_output letters_output) ?m (ustr ''repo'') None = Inr (replicate 117 65 @ ustr ''...'')"
    unfolding Let_def letters_output_line by simp
  from o l a f'(2) show ?thesis by blast
qed

section \<open>Properties of the local text generator\<close>

lemma lang_info_eq:
  "lang_info langs =
     (if langs = [] then ustr ''Unknown''
      else join (ustr '', '') (map fst (take 3 (sorted_reverse snd langs))))"
proof -
  have "length (take 3 (sorted_reverse snd langs)) = min (length langs) 3"
    by (simp add: sorted_reverse_def)
  then have "take 3 (sorted_reverse snd langs) = [] \<longleftrightarrow> langs = []"
    by (metis length_0_conv min_0L min_0R zero_neq_numeral min_def)
  then show ?thesis by (simp add: lang_info_def top_languages_def)
qed

text \<open>
  When the console accepts every text, the two generators of the local backend always return
  a string: \<^verbatim>\<open>generate_description\<close> of \<^verbatim>\<open>automate_ollama.py\<close> returns the empty string
  when the prompt cannot be encoded, when \<^verbatim>\<open>subprocess.run\<close> raises, when the process
  exits with a non-zero status, and when its output is not valid UTF-8;
  \<^verbatim>\<open>generate_project_summary\<close> returns in the same four cases the fallback summary, made of
  the repository name and of the language list of the prompt (\<open>lang_info\<close>: the names of
  the three languages of the most bytes, or \<^verbatim>\<open>Unknown\<close>).
\<close>

lemma local_generator_failure_printed:
  assumes ok: "\<forall>s. print s = Inr ()"
  shows "(\<exists>d. generate_description_ollama print exc_str subprocess_run model repo_name readme = Inr d) \<and>
   (\<exists>s. generate_project_summary print exc_str subprocess_run model repo_name readme_text langs =
      Inr s) \<and>
   (\<forall>e. utf8_encode (ollama_prompt repo_name readme) = Inl e \<longrightarrow>
      generate_description_ollama print exc_str subprocess_run model repo_name readme = Inr []) \<and>
   (\<forall>input e. utf8_encode (ollama_prompt repo_name readme) = Inr input \<and>
      subprocess_run [ustr ''ollama'', ustr ''run'', model] input 120 = Inl e \<longrightarrow>
      generate_description_ollama print exc_str subprocess_run model repo_name readme = Inr []) \<and>
   (\<forall>input result. utf8_encode (ollama_prompt repo_name readme) = Inr input \<and>
      subprocess_run [ustr ''ollama'', ustr ''run'', model] input 120 = Inr result \<and>
      returncode result \<noteq> 0 \<longrightarrow>
      generate_description_ollama print exc_str subprocess_run model repo_name readme = Inr []) \<and>
   (\<forall>input result e. utf8_encode (ollama_prompt repo_name readme) = Inr input \<and>
      subprocess_run [ustr ''ollama'', ustr ''run'', model] input 120 = Inr result \<and>
      utf8_decode False (stdout result) = Inl e \<longrightarrow>
      generate_description_ollama print exc_str subprocess_run model repo_name readme = Inr []) \<and>
   (\<forall>e. utf8_encode (summary_prompt repo_name readme_text langs) = Inl e \<longrightarrow>
      generate_project_summary print exc_str subprocess_run model repo_name readme_text langs =
        Inr (summary_failed repo_name langs)) \<and>
   (\<forall>input e. utf8_encode (summary_prompt repo_name readme_text langs) = Inr input \<and>
      subprocess_run [ustr ''ollama'', ustr ''run'', model] input 180 = Inl e \<longrightarrow>
      generate_project_summary print exc_str subprocess_run model repo_name readme_text langs =
        Inr (summary_failed repo_name langs)) \<and>
   (\<forall>input result. utf8_encode (summary_prompt repo_name readme_text langs) = Inr input \<and>
      subprocess_run [ustr ''ollama'', ustr ''run'', model] input 180 = Inr result \<and>
      returncode result \<noteq> 0 \<longrightarrow>
      generate_project_summary print exc_str subprocess_run model repo_name readme_text langs =
        Inr (summary_failed repo_name langs)) \<and>
   (\<forall>input result e. utf8_encode (summary_prompt repo_name readme_text langs) = Inr input \<and>
      subprocess_run [ustr ''ollama'', ustr ''run'', model] input 180 = Inr result \<and>
      utf8_decode False (stdout result) = Inl e \<longrightarrow>
      generate_project_summary print exc_str subprocess_run model repo_name readme_text langs =
        Inr (summary_failed repo_name langs))"
proof -
  have d: "\<exists>d. generate_description_ollama print exc_str subprocess_run model repo_name readme = Inr d"
    by (simp add: generate_description_ollama_def try_except_def Let_def ok split: sum.splits)
  have s: "\<exists>s. generate_project_summary print exc_str subprocess_run model repo_name readme_text
      langs = Inr s"
    by (simp add: generate_project_summary_def try_except_def Let_def ok split: sum.splits)
  have d1: "\<forall>e. utf8_encode (ollama_prompt repo_name readme) = Inl e \<longrightarrow>
      generate_description_ollama print exc_str subprocess_run model repo_name readme = Inr []"
    by (simp add: generate_description_ollama_def try_except_def Let_def ok)
  have d2: "\<forall>input e. utf8_encode (ollama_prompt repo_name readme) = Inr input \<and>
      subprocess_run [ustr ''ollama'', ustr ''run'', model] input 120 = Inl e \<longrightarrow>
      generate_description_ollama print exc_str subprocess_run model repo_name readme = Inr []"
    by (simp add: generate_description_ollama_def try_except_def Let_def ok)
  have d3: "\<forall>input result. utf8_encode (ollama_prompt repo_name readme) = Inr input \<and>
      subprocess_run [ustr ''ollama'', ustr ''run'', model] input 120 = Inr result \<and>
      returncode result \<noteq> 0 \<longrightarrow>
      generate_description_ollama print exc_str subprocess_run model repo_name readme = Inr []"
    by (simp add: generate_description_ollama_def try_except_def Let_def ok split: sum.splits)
  have d4: "\<forall>input result e. utf8_encode (ollama_prompt repo_name readme) = Inr input \<and>
      subprocess_run [ustr ''ollama'', ustr ''run'', model] input 120 = Inr result \<and>
      utf8_decode False (stdout result) = Inl e \<longrightarrow>
      generate_description_ollama print exc_str subprocess_run model repo_name readme = Inr []"
    by (simp add: generate_description_ollama_def try_except_def Let_def ok split: sum.splits)
  have s1: "\<forall>e. utf8_encode (summary_prompt repo_name readme_text langs) = Inl e \<longrightarrow>
      generate_project_summary print exc_str subprocess_run model repo_name readme_text langs =
        Inr (summary_failed repo_name langs)"
    by (simp add: generate_project_summary_def try_except_def Let_def ok)
  have s2: "\<forall>input e. utf8_encode (summary_prompt repo_name readme_text langs) = Inr input \<and>
      subprocess_run [ustr ''ollama'', ustr ''run'', model] input 180 = Inl e \<longrightarrow>
      generate_project_summary print exc_str subprocess_run model repo_name readme_text langs =
        Inr (summary_failed repo_name langs)"
    by (simp add: generate_project_summary_def try_except_def Let_def ok)
  have s3: "\<forall>input result. utf8_encode (summary_prompt repo_name readme_text langs) = Inr input \<and>
      subprocess_run [ustr ''ollama'', ustr ''run'', model] input 180 = Inr result \<and>
      returncode result \<noteq> 0 \<longrightarrow>
      generate_project_summary print exc_str subprocess_run model repo_name readme_text langs =
        Inr (summary_failed repo_name langs)"
    by (simp add: generate_project_summary_def try_except_def Let_def ok split: sum.splits)
  have s4: "\<forall>input result e. utf8_encode (summary_prompt repo_name readme_text langs) = Inr input \<and>
      subprocess_run [ustr ''ollama'', ustr ''run'', model] input 180 = Inr result \<and>
      utf8_decode False (stdout result) = Inl e \<longrightarrow>
      generate_project_summary print exc_str subprocess_run model repo_name readme_text langs =
        Inr (summary_failed repo_name langs)"
    by (simp add: generate_project_summary_def try_except_def Let_def ok split: sum.splits)
  show ?thesis
    using d s d1 d2 d3 d4 s1 s2 s3 s4 by blast
qed


section \<open>Properties of the describer\<close>

lemma update_repo_description_log:
  "update_repo_description owner repo d log =
     log @ [PatchRequest owner repo [(ustr ''description'', d)]]"
  by (simp add: update_repo_description_def)



lemma get_readme_hello:
  "get_readme readme_hello owner repo = Inr (Some (ustr ''Hello World!''))"
proof -
  have "ustr ''SGVsbG8gV29ybGQh'' \<noteq> []" by (simp add: ustr_def)
  then show ?thesis
    by (simp add: get_readme_def readme_hello_def raise_for_status_def Let_def b64_hello
        utf8_hello)
qed


text \<open>
  Over a whole run of a describer, whatever the services answer: the loop only adds to the
  log, and every update request it sends carries a description that is not empty and differs
  from the current description of the repository it is sent for.
\<close>

lemma process_repo_log:
  assumes "process_repo generate readme_get username repo log = (r, log')"
  shows "\<exists>new. log' = log @ new \<and>
           (\<forall>e\<in>set new. e = Sleep 2 \<or>
              (\<exists>d. e = PatchRequest username (name repo) [(ustr ''description'', d)] \<and>
                 d \<noteq> [] \<and> d \<noteq> description_or_empty repo))"
  using assms
  by (auto simp: process_repo_def Let_def update_repo_description_log
      split: sum.splits if_splits)

lemma process_repos_log:
  assumes "process_repos generate readme_get username repos log = (r, log')"
  shows "\<exists>new. log' = log @ new \<and>
           (\<forall>e\<in>set new. e = Sleep 2 \<or>
              (\<exists>repo\<in>set repos. \<exists>d.
                 e = PatchRequest username (name repo) [(ustr ''description'', d)] \<and>
                 d \<noteq> [] \<and> d \<noteq> description_or_empty repo))"
  using assms
proof (induction repos arbitrary: log)
  case Nil
  then show ?case by simp
next
  case (Cons repo repos)
  obtain r1 l1 where step: "process_repo generate readme_get username repo log = (r1, l1)"
    by (cases "process_repo generate readme_get username repo log")
  from process_repo_log [OF step] obtain new1 where n1: "l1 = log @ new1"
    "\<forall>e\<in>set new1. e = Sleep 2 \<or>
       (\<exists>d. e = PatchRequest username (name repo) [(ustr ''description'', d)] \<and>
          d \<noteq> [] \<and> d \<noteq> description_or_empty repo)" by blast
  show ?case
  proof (cases r1)
    case (Inl e)
    with step Cons.prems have "log' = l1" by simp
    with n1 show ?thesis by (intro exI [of _ new1]) auto
  next
    case (Inr u)
    with step Cons.prems have "process_repos generate readme_get username repos l1 = (r, log')"
      by simp
    from Cons.IH [OF this] obtain new2 where n2: "log' = l1 @ new2"
      "\<forall>e\<in>set new2. e = Sleep 2 \<or>
         (\<exists>repo\<in>set repos. \<exists>d.
            e = PatchRequest username (name repo) [(ustr ''description'', d)] \<and>
            d \<noteq> [] \<and> d \<noteq> description_or_empty repo)" by blast
    from n1 n2 show ?thesis by (intro exI [of _ "new1 @ new2"]) auto
  qed
qed

section \<open>Properties of the report\<close>

lemma str_of_int_0: "str_of_int 0 = ustr ''0''"
  by (simp add: str_of_int_def str_of_nat.simps ustr_def)

text \<open>
  Claim C7. For the empty list \<^verbatim>\<open>generate_markdown_report\<close> returns the top of the report
  followed at once by its end: there is no section of a project. In the top, both counts of
  projects and both totals read 0; the row of the table is
  \<^verbatim>\<open>| **Total Documented Projects** | 0 |\<close>.
\<close>

theorem empty_report:
  "generate_markdown_report dt username [] =
     Inr (report_head (strftime dt (now_in_report dt) (ustr ''%B %d, %Y'')) 0 0 0
          @ report_foot username) \<and>
   project_sections dt 1 [] = Inr [] \<and>
   report_head generated_on 0 0 0 =
      ustr ''# '' @ [128640]
      @ ustr '' GitHub Projects Portfolio\<newline>\<newline>**Generated on:** ''
      @ generated_on @ ustr ''  \<newline>**Total Projects with Documentation:** ''
      @ ustr ''0'' @ ustr ''\<newline>\<newline>---\<newline>\<newline>## '' @ [128202]
      @ ustr '' Quick Overview\<newline>\<newline>| Metric | Count |\<newline>|--------|-------|\<newline>| **Total Documented Projects** | ''
      @ ustr ''0'' @ ustr '' |\<newline>| **Total Stars** | '' @ ustr ''0''
      @ ustr '' |\<newline>| **Total Forks** | '' @ ustr ''0''
      @ ustr '' |\<newline>\<newline>---\<newline>\<newline>## '' @ [128193]
      @ ustr '' Project Details\<newline>\<newline>''"
  by (simp add: generate_markdown_report_def report_head_def str_of_int_0)

lemma summarize_repo_cases:
  assumes "summarize_repo w repo acc log = (Inr rs, log')"
  shows "(readme_found w repo \<and>
            (\<exists>p c cs. rs = acc @ [p] \<and> as_listed p = as_listed repo \<and>
               readme_content p = Some (c # cs)) \<and> log' = log @ [Sleep 2]) \<or>
         (\<not> readme_found w repo \<and> rs = acc \<and> log' = log)"
proof (cases "get_readme (readme_endpoint w) (GITHUB_USERNAME w) (name repo)")
  case (Inl e)
  with assms show ?thesis by (simp add: summarize_repo_def Let_def)
next
  case (Inr readme)
  show ?thesis
  proof (cases readme)
    case None
    with Inr assms show ?thesis by (simp add: summarize_repo_def Let_def readme_found_def)
  next
    case (Some r)
    show ?thesis
    proof (cases r)
      case Nil
      with Some Inr assms show ?thesis by (simp add: summarize_repo_def Let_def readme_found_def)
    next
      case (Cons c cs)
      with Some Inr have f: "readme_found w repo" by (simp add: readme_found_def)
      obtain g where g: "generate_project_summary (console_print w) (exception_text w)
          (process_backend w) (OLLAMA_MODEL w) (name repo) (c # cs)
          (get_repo_languages (languages_endpoint w) (GITHUB_USERNAME w) (name repo)) = g"
        by blast
      from assms Inr Some Cons g obtain s where s: "g = Inr s"
        by (cases g) (simp_all add: summarize_repo_def Let_def)
      from assms Inr Some Cons g s
      have "rs = acc @ [repo\<lparr>languages :=
               Some (get_repo_languages (languages_endpoint w) (GITHUB_USERNAME w) (name repo)),
             ai_summary := Some s, readme_content := Some (c # cs)\<rparr>]" and "log' = log @ [Sleep 2]"
        by (simp_all add: summarize_repo_def Let_def)
      with f show ?thesis by (auto simp: as_listed_def)
    qed
  qed
qed

lemma summarize_repos_kept:
  assumes "summarize_repos w all_repos acc log = (Inr rs, log')"
  shows "\<exists>kept. rs = acc @ kept \<and> log' = log @ replicate (length kept) (Sleep 2) \<and>
           map as_listed kept = map as_listed (filter (readme_found w) all_repos) \<and>
           (\<forall>p\<in>set kept. \<exists>c cs. readme_content p = Some (c # cs))"
  using assms
proof (induction all_repos arbitrary: acc log)
  case Nil
  then show ?case by simp
next
  case (Cons repo all_repos)
  obtain r1 l1 where step: "summarize_repo w repo acc log = (r1, l1)"
    by (cases "summarize_repo w repo acc log")
  show ?case
  proof (cases r1)
    case (Inl e)
    with step Cons.prems show ?thesis by simp
  next
    case (Inr rs1)
    with step Cons.prems have rest: "summarize_repos w all_repos rs1 l1 = (Inr rs, log')" by simp
    from Cons.IH [OF rest] obtain kept where k: "rs = rs1 @ kept"
      "log' = l1 @ replicate (length kept) (Sleep 2)"
      "map as_listed kept = map as_listed (filter (readme_found w) all_repos)"
      "\<forall>p\<in>set kept. \<exists>c cs. readme_content p = Some (c # cs)" by blast
    from summarize_repo_cases [OF step [unfolded Inr]]
    show ?thesis
    proof (elim disjE conjE exE)
      fix p c cs
      assume a: "readme_found w repo" "rs1 = acc @ [p]" "as_listed p = as_listed repo"
        "readme_content p = Some (c # cs)" "l1 = log @ [Sleep 2]"
      have "rs = acc @ (p # kept)" using k(1) a(2) by simp
      moreover have "log' = log @ replicate (length (p # kept)) (Sleep 2)"
        using k(2) a(5) by (simp add: replicate_append_same)
      moreover have "map as_listed (p # kept) =
          map as_listed (filter (readme_found w) (repo # all_repos))"
        using k(3) a(1,3) by simp
      moreover have "\<forall>q\<in>set (p # kept). \<exists>c cs. readme_content q = Some (c # cs)"
        using k(4) a(4) by simp
      ultimately show ?thesis by blast
    next
      assume a: "\<not> readme_found w repo" "rs1 = acc" "l1 = log"
      with k show ?thesis by auto
    qed
  qed
qed

lemma project_sections_nth:
  assumes "project_sections dt i projects = Inr sections"
  shows "length sections = length projects \<and>
         (\<forall>k<length projects. project_section dt (i + k) (projects ! k) = Inr (sections ! k))"
  using assms
proof (induction projects arbitrary: i sections)
  case Nil
  then show ?case by simp
next
  case (Cons p ps)
  from Cons.prems obtain s ss where s: "project_section dt i p = Inr s"
    "project_sections dt (i + 1) ps = Inr ss" "sections = s # ss"
    by (auto split: sum.splits)
  from Cons.IH [OF s(2)] have ih: "length ss = length ps"
    "\<forall>k<length ps. project_section dt (i + 1 + k) (ps ! k) = Inr (ss ! k)" by auto
  have "project_section dt (i + k) ((p # ps) ! k) = Inr ((s # ss) ! k)" if "k < length (p # ps)" for k
  proof (cases k)
    case 0
    with s(1) show ?thesis by simp
  next
    case (Suc m)
    with that ih(2) show ?thesis by simp
  qed
  with ih(1) s(3) show ?case by simp
qed

lemma generate_markdown_report_parts:
  assumes "generate_markdown_report dt username projects = Inr report"
  shows "\<exists>sections. project_sections dt 1 projects = Inr sections \<and>
           report = report_head (strftime dt (now_in_report dt) (ustr ''%B %d, %Y''))
                      (length projects)
                      (sum_list (map (\<lambda>p. count_or_0 (stargazers_count p)) projects))
                      (sum_list (map (\<lambda>p. count_or_0 (forks_count p)) projects))
                    @ concat sections @ report_foot username"
  using assms by (auto simp: generate_markdown_report_def Let_def split: sum.splits)

lemma mset_sorted_reverse: "mset (sorted_reverse key xs) = mset xs"
  by (simp add: sorted_reverse_def)

lemma length_sorted_reverse: "length (sorted_reverse key xs) = length xs"
  by (simp add: sorted_reverse_def)

lemma sorted_reverse_descending:
  "sorted_wrt (\<lambda>a b. key a \<ge> key b) (sorted_reverse key xs)"
proof -
  have "sorted (map key (sort_key key (rev xs)))" by simp
  then have "sorted_wrt (\<lambda>a b. key a \<le> key b) (sort_key key (rev xs))"
    by (simp add: sorted_map)
  then show ?thesis by (simp add: sorted_reverse_def sorted_wrt_rev)
qed

lemma sorted_reverse_stable:
  "filter (\<lambda>y. key y = k) (sorted_reverse key xs) = filter (\<lambda>y. key y = k) xs"
proof -
  have "filter (\<lambda>y. key y = k) (sort_key key (rev xs)) = filter (\<lambda>y. key y = k) (rev xs)"
    by (rule sort_key_stable)
  then have "rev (filter (\<lambda>y. key y = k) (sort_key key (rev xs))) = filter (\<lambda>y. key y = k) xs"
    by (simp add: rev_filter)
  then show ?thesis by (simp add: sorted_reverse_def rev_filter)
qed

lemma sum_list_map_mset_eq:
  "mset xs = mset ys \<Longrightarrow> sum_list (map f xs) = sum_list (map (f::'a \<Rightarrow> int) ys)"
  by (metis mset_map sum_mset_sum_list)

lemma as_listed_counts:
  "stargazers_count (as_listed r) = stargazers_count r"
  "forks_count (as_listed r) = forks_count r"
  "name (as_listed r) = name r"
  "updated_at (as_listed r) = updated_at r"
  by (simp_all add: as_listed_def)

lemma map_as_listed_stars:
  assumes "map as_listed xs = map as_listed ys"
  shows "map (\<lambda>p. count_or_0 (stargazers_count p)) xs = map (\<lambda>p. count_or_0 (stargazers_count p)) ys"
    and "map (\<lambda>p. count_or_0 (forks_count p)) xs = map (\<lambda>p. count_or_0 (forks_count p)) ys"
proof -
  have "map ((\<lambda>p. count_or_0 (stargazers_count p)) \<circ> as_listed) xs =
      map ((\<lambda>p. count_or_0 (stargazers_count p)) \<circ> as_listed) ys"
    using assms by (metis map_map)
  then show "map (\<lambda>p. count_or_0 (stargazers_count p)) xs =
      map (\<lambda>p. count_or_0 (stargazers_count p)) ys"
    by (simp add: comp_def as_listed_counts)
  have "map ((\<lambda>p. count_or_0 (forks_count p)) \<circ> as_listed) xs =
      map ((\<lambda>p. count_or_0 (forks_count p)) \<circ> as_listed) ys"
    using assms by (metis map_map)
  then show "map (\<lambda>p. count_or_0 (forks_count p)) xs = map (\<lambda>p. count_or_0 (forks_count p)) ys"
    by (simp add: comp_def as_listed_counts)
qed

lemma summarize_result:
  assumes "summarize dt w all_repos = (Inr (), log)"
  shows "\<exists>kept. summarize_repos w all_repos [] [] = (Inr kept, replicate (length kept) (Sleep 2)) \<and>
      map as_listed kept = map as_listed (filter (readme_found w) all_repos) \<and>
      (\<forall>p\<in>set kept. \<exists>c cs. readme_content p = Some (c # cs)) \<and>
      (kept = [] \<longrightarrow> log = []) \<and>
      (kept \<noteq> [] \<longrightarrow>
         (\<exists>report. generate_markdown_report dt (GITHUB_USERNAME w)
                      (sorted_reverse sort_key_of kept) = Inr report \<and>
            log = replicate (length kept) (Sleep 2) @
              [WriteFile (ustr ''github_projects_report_''
                          @ strftime dt (now_in_main dt) (ustr ''%Y%m%d_%H%M%S'') @ ustr ''.md'')
                 report]))"
proof -
  obtain r l where loop: "summarize_repos w all_repos [] [] = (r, l)"
    by (cases "summarize_repos w all_repos [] []")
  show ?thesis
  proof (cases r)
    case (Inl e)
    with loop assms show ?thesis by (simp add: summarize_def)
  next
    case (Inr rs)
    from summarize_repos_kept [OF loop [unfolded Inr]] obtain kept where k:
      "rs = kept" "l = replicate (length kept) (Sleep 2)"
      "map as_listed kept = map as_listed (filter (readme_found w) all_repos)"
      "\<forall>p\<in>set kept. \<exists>c cs. readme_content p = Some (c # cs)" by auto
    have a: "summarize_repos w all_repos [] [] = (Inr kept, replicate (length kept) (Sleep 2))"
      using loop Inr k(1,2) by simp
    have b: "kept = [] \<longrightarrow> log = []"
      using assms a by (auto simp: summarize_def)
    have c: "kept \<noteq> [] \<longrightarrow>
         (\<exists>report. generate_markdown_report dt (GITHUB_USERNAME w)
                      (sorted_reverse sort_key_of kept) = Inr report \<and>
            log = replicate (length kept) (Sleep 2) @
              [WriteFile (ustr ''github_projects_report_''
                          @ strftime dt (now_in_main dt) (ustr ''%Y%m%d_%H%M%S'') @ ustr ''.md'')
                 report])"
      using assms a by (auto simp: summarize_def Let_def split: sum.splits)
    from a k(3,4) b c show ?thesis by blast
  qed
qed

lemma decimal_str_of_nat:
  "list_all is_digit (str_of_nat n) \<and> decimal (str_of_nat n) = n"
proof (induction n rule: str_of_nat.induct)
  case (1 n)
  show ?case
  proof (cases "n < 10")
    case True
    then show ?thesis by (simp add: str_of_nat.simps [of n] is_digit_def decimal_def)
  next
    case False
    with 1 have ih: "list_all is_digit (str_of_nat (n div 10))"
      "decimal (str_of_nat (n div 10)) = n div 10" by simp_all
    have m: "n mod 10 < 10" by simp
    have d: "is_digit (48 + n mod 10)" using m by (simp add: is_digit_def)
    have "decimal (str_of_nat (n div 10) @ [48 + n mod 10]) =
        10 * decimal (str_of_nat (n div 10)) + n mod 10"
      by (simp add: decimal_def)
    with ih(2) have "decimal (str_of_nat (n div 10) @ [48 + n mod 10]) = n" by simp
    with False ih(1) d show ?thesis by (simp add: str_of_nat.simps [of n])
  qed
qed

lemma project_section_text:
  assumes "project_section dt i p = Inr s"
    and "languages p = Some langs" and "ai_summary p = Some summary"
  shows "\<exists>created updated.
     strptime dt (created_at p) (ustr ''%Y-%m-%dT%H:%M:%SZ'') = Inr created \<and>
     strptime dt (updated_at p) (ustr ''%Y-%m-%dT%H:%M:%SZ'') = Inr updated \<and>
     s = ustr ''### '' @ str_of_int (int i) @ ustr ''. ['' @ name p
         @ ustr '']('' @ html_url p
         @ ustr '')\<newline>\<newline>**Technologies:** ''
         @ (if langs = [] then [96] @ ustr ''Unknown'' @ [96]
            else join (ustr '' '') (map (\<lambda>lang. [96] @ lang @ [96]) (take 5 (map fst langs))))
         @ ustr ''  \<newline>**Created:** '' @ strftime dt created (ustr ''%B %Y'')
         @ ustr '' | **Last Updated:** '' @ strftime dt updated (ustr ''%B %d, %Y'')
         @ ustr ''  \<newline>**Stats:** '' @ format_repo_stats p
         @ ustr ''\<newline>\<newline>'' @ summary @ ustr ''\<newline>\<newline>---\<newline>\<newline>''"
proof -
  from assms(1) obtain created where c:
    "strptime dt (created_at p) (ustr ''%Y-%m-%dT%H:%M:%SZ'') = Inr created"
    by (cases "strptime dt (created_at p) (ustr ''%Y-%m-%dT%H:%M:%SZ'')")
       (simp_all add: project_section_def Let_def)
  from assms(1) c obtain updated where u:
    "strptime dt (updated_at p) (ustr ''%Y-%m-%dT%H:%M:%SZ'') = Inr updated"
    by (cases "strptime dt (updated_at p) (ustr ''%Y-%m-%dT%H:%M:%SZ'')")
       (simp_all add: project_section_def Let_def)
  have e: "take 5 (map fst langs) = [] \<longleftrightarrow> langs = []" by (cases langs) simp_all
  from assms c u have "s = section_text i (name p) (html_url p)
      (if langs = [] then [96] @ ustr ''Unknown'' @ [96]
       else join (ustr '' '') (map (\<lambda>lang. [96] @ lang @ [96]) (take 5 (map fst langs))))
      (strftime dt created (ustr ''%B %Y'')) (strftime dt updated (ustr ''%B %d, %Y''))
      (format_repo_stats p) summary"
    by (auto simp add: project_section_def Let_def e)
  then have "s = ustr ''### '' @ str_of_int (int i) @ ustr ''. ['' @ name p
         @ ustr '']('' @ html_url p
         @ ustr '')\<newline>\<newline>**Technologies:** ''
         @ (if langs = [] then [96] @ ustr ''Unknown'' @ [96]
            else join (ustr '' '') (map (\<lambda>lang. [96] @ lang @ [96]) (take 5 (map fst langs))))
         @ ustr ''  \<newline>**Created:** '' @ strftime dt created (ustr ''%B %Y'')
         @ ustr '' | **Last Updated:** '' @ strftime dt updated (ustr ''%B %d, %Y'')
         @ ustr ''  \<newline>**Stats:** '' @ format_repo_stats p
         @ ustr ''\<newline>\<newline>'' @ summary @ ustr ''\<newline>\<newline>---\<newline>\<newline>''"
    by (simp only: section_text_def)
  with c u show ?thesis by blast
qed

lemma summarize_repo_keys:
  assumes "summarize_repo w repo acc log = (Inr rs, log')"
    and "\<forall>p\<in>set acc. \<exists>langs s. languages p = Some langs \<and> ai_summary p = Some s"
  shows "\<forall>p\<in>set rs. \<exists>langs s. languages p = Some langs \<and> ai_summary p = Some s"
  using assms
  by (auto simp: summarize_repo_def Let_def split: sum.splits option.splits list.splits)

lemma summarize_repos_keys:
  assumes "summarize_repos w all_repos acc log = (Inr rs, log')"
    and "\<forall>p\<in>set acc. \<exists>langs s. languages p = Some langs \<and> ai_summary p = Some s"
  shows "\<forall>p\<in>set rs. \<exists>langs s. languages p = Some langs \<and> ai_summary p = Some s"
  using assms
proof (induction all_repos arbitrary: acc log)
  case Nil
  then show ?case by simp
next
  case (Cons repo all_repos)
  obtain r1 l1 where step: "summarize_repo w repo acc log = (r1, l1)"
    by (cases "summarize_repo w repo acc log")
  show ?case
  proof (cases r1)
    case (Inl e)
    with step Cons.prems show ?thesis by simp
  next
    case (Inr rs1)
    with step Cons.prems have rest: "summarize_repos w all_repos rs1 l1 = (Inr rs, log')" by simp
    from summarize_repo_keys [OF step [unfolded Inr] Cons.prems(2)]
    show ?thesis by (rule Cons.IH [OF rest])
  qed
qed

text \<open>
  Claim C8. When the run of the summarizer completes, the repositories it kept are, but for
  the three keys added, exactly the listed repositories whose readme fetch returned a text
  that is not empty, in listing order, and each carries that text. If none was kept no file
  is written. Otherwise one file is written, and its text is spelled out here. It has one
  section for each kept repository and no other section; section number \<open>k + 1\<close> is headed
  by this number and by the name and the address of the repository, and carries its
  languages, dates, statistics and summary. The two counts of projects at the top are the
  number of the listed repositories with a readme; the rows \<^verbatim>\<open>Total Stars\<close> and
  \<^verbatim>\<open>Total Forks\<close> of the overview table are the sums of \<^verbatim>\<open>stargazers_count\<close> and
  \<^verbatim>\<open>forks_count\<close> over exactly those repositories. A number that is not negative is
  written in decimal digits, which read back as the number.
\<close>

theorem report_covers_documented_repos:
  assumes "summarize dt w all_repos = (Inr (), log)"
  shows "\<exists>kept projects sections.
     map as_listed kept = map as_listed (filter (readme_found w) all_repos) \<and>
     (\<forall>p\<in>set kept. \<exists>c cs. readme_content p = Some (c # cs)) \<and>
     mset projects = mset kept \<and>
     length sections = length projects \<and>
     (\<forall>k<length projects. \<exists>created updated langs summary.
        strptime dt (created_at (projects ! k)) (ustr ''%Y-%m-%dT%H:%M:%SZ'') = Inr created \<and>
        strptime dt (updated_at (projects ! k)) (ustr ''%Y-%m-%dT%H:%M:%SZ'') = Inr updated \<and>
        languages (projects ! k) = Some langs \<and>
        ai_summary (projects ! k) = Some summary \<and>
        sections ! k =
          ustr ''### '' @ str_of_int (int (k + 1)) @ ustr ''. ['' @ name (projects ! k)
          @ ustr '']('' @ html_url (projects ! k)
          @ ustr '')\<newline>\<newline>**Technologies:** ''
          @ (if langs = [] then [96] @ ustr ''Unknown'' @ [96]
             else join (ustr '' '') (map (\<lambda>lang. [96] @ lang @ [96]) (take 5 (map fst langs))))
          @ ustr ''  \<newline>**Created:** '' @ strftime dt created (ustr ''%B %Y'')
          @ ustr '' | **Last Updated:** '' @ strftime dt updated (ustr ''%B %d, %Y'')
          @ ustr ''  \<newline>**Stats:** '' @ format_repo_stats (projects ! k)
          @ ustr ''\<newline>\<newline>'' @ summary @ ustr ''\<newline>\<newline>---\<newline>\<newline>'') \<and>
     log = replicate (length kept) (Sleep 2) @
       (if kept = [] then []
        else [WriteFile (ustr ''github_projects_report_''
                         @ strftime dt (now_in_main dt) (ustr ''%Y%m%d_%H%M%S'') @ ustr ''.md'')
                (ustr ''# '' @ [128640]
                 @ ustr '' GitHub Projects Portfolio\<newline>\<newline>**Generated on:** ''
                 @ strftime dt (now_in_report dt) (ustr ''%B %d, %Y'')
                 @ ustr ''  \<newline>**Total Projects with Documentation:** ''
                 @ str_of_int (int (length (filter (readme_found w) all_repos)))
                 @ ustr ''\<newline>\<newline>---\<newline>\<newline>## '' @ [128202]
                 @ ustr '' Quick Overview\<newline>\<newline>| Metric | Count |\<newline>|--------|-------|\<newline>| **Total Documented Projects** | ''
                 @ str_of_int (int (length (filter (readme_found w) all_repos)))
                 @ ustr '' |\<newline>| **Total Stars** | ''
                 @ str_of_int (sum_list (map (\<lambda>p. count_or_0 (stargazers_count p))
                      (filter (readme_found w) all_repos)))
                 @ ustr '' |\<newline>| **Total Forks** | ''
                 @ str_of_int (sum_list (map (\<lambda>p. count_or_0 (forks_count p))
                      (filter (readme_found w) all_repos)))
                 @ ustr '' |\<newline>\<newline>---\<newline>\<newline>## '' @ [128193]
                 @ ustr '' Project Details\<newline>\<newline>''
                 @ concat sections @ report_foot (GITHUB_USERNAME w))]) \<and>
     (\<forall>n. list_all is_digit (str_of_int (int n)) \<and> decimal (str_of_int (int n)) = n)"
proof -
  from summarize_result [OF assms] obtain kept where k:
    "summarize_repos w all_repos [] [] = (Inr kept, replicate (length kept) (Sleep 2))"
    "map as_listed kept = map as_listed (filter (readme_found w) all_repos)"
    "\<forall>p\<in>set kept. \<exists>c cs. readme_content p = Some (c # cs)"
    "kept = [] \<longrightarrow> log = []"
    "kept \<noteq> [] \<longrightarrow>
         (\<exists>report. generate_markdown_report dt (GITHUB_USERNAME w)
                      (sorted_reverse sort_key_of kept) = Inr report \<and>
            log = replicate (length kept) (Sleep 2) @
              [WriteFile (ustr ''github_projects_report_''
                          @ strftime dt (now_in_main dt) (ustr ''%Y%m%d_%H%M%S'') @ ustr ''.md'')
                 report])" by blast
  have dg: "\<forall>n. list_all is_digit (str_of_int (int n)) \<and> decimal (str_of_int (int n)) = n"
    using decimal_str_of_nat by (simp add: str_of_int_def)
  have keys: "\<forall>p\<in>set kept. \<exists>langs s. languages p = Some langs \<and> ai_summary p = Some s"
    by (rule summarize_repos_keys [OF k(1)]) simp
  show ?thesis
  proof (cases "kept = []")
    case True
    with k(4) have "log = []" by simp
    with True k(2,3) dg show ?thesis
      by (intro exI [of _ kept] exI [of _ "[]"]) simp
  next
    case False
    let ?ps = "sorted_reverse sort_key_of kept"
    let ?found = "filter (readme_found w) all_repos"
    from False k(5) obtain report where r:
      "generate_markdown_report dt (GITHUB_USERNAME w) ?ps = Inr report"
      "log = replicate (length kept) (Sleep 2) @
              [WriteFile (ustr ''github_projects_report_''
                          @ strftime dt (now_in_main dt) (ustr ''%Y%m%d_%H%M%S'') @ ustr ''.md'')
                 report]" by blast
    from generate_markdown_report_parts [OF r(1)] obtain sections where s:
      "project_sections dt 1 ?ps = Inr sections"
      "report = report_head (strftime dt (now_in_report dt) (ustr ''%B %d, %Y'')) (length ?ps)
                  (sum_list (map (\<lambda>p. count_or_0 (stargazers_count p)) ?ps))
                  (sum_list (map (\<lambda>p. count_or_0 (forks_count p)) ?ps))
                @ concat sections @ report_foot (GITHUB_USERNAME w)" by blast
    have m: "mset ?ps = mset kept" by (rule mset_sorted_reverse)
    have n: "length ?ps = length ?found"
      using k(2) length_sorted_reverse [of sort_key_of kept] by (metis length_map)
    have st: "sum_list (map (\<lambda>p. count_or_0 (stargazers_count p)) ?ps) =
        sum_list (map (\<lambda>p. count_or_0 (stargazers_count p)) ?found)"
      using sum_list_map_mset_eq [OF m] map_as_listed_stars(1) [OF k(2)] by simp
    have fk: "sum_list (map (\<lambda>p. count_or_0 (forks_count p)) ?ps) =
        sum_list (map (\<lambda>p. count_or_0 (forks_count p)) ?found)"
      using sum_list_map_mset_eq [OF m] map_as_listed_stars(2) [OF k(2)] by simp
    from project_sections_nth [OF s(1)] have l: "length sections = length ?ps"
      and nth: "\<forall>k<length ?ps. project_section dt (1 + k) (?ps ! k) = Inr (sections ! k)"
      by simp_all
    have sec: "\<exists>created updated langs summary.
        strptime dt (created_at (?ps ! k)) (ustr ''%Y-%m-%dT%H:%M:%SZ'') = Inr created \<and>
        strptime dt (updated_at (?ps ! k)) (ustr ''%Y-%m-%dT%H:%M:%SZ'') = Inr updated \<and>
        languages (?ps ! k) = Some langs \<and>
        ai_summary (?ps ! k) = Some summary \<and>
        sections ! k =
          ustr ''### '' @ str_of_int (int (k + 1)) @ ustr ''. ['' @ name (?ps ! k)
          @ ustr '']('' @ html_url (?ps ! k)
          @ ustr '')\<newline>\<newline>**Technologies:** ''
          @ (if langs = [] then [96] @ ustr ''Unknown'' @ [96]
             else join (ustr '' '') (map (\<lambda>lang. [96] @ lang @ [96]) (take 5 (map fst langs))))
          @ ustr ''  \<newline>**Created:** '' @ strftime dt created (ustr ''%B %Y'')
          @ ustr '' | **Last Updated:** '' @ strftime dt updated (ustr ''%B %d, %Y'')
          @ ustr ''  \<newline>**Stats:** '' @ format_repo_stats (?ps ! k)
          @ ustr ''\<newline>\<newline>'' @ summary @ ustr ''\<newline>\<newline>---\<newline>\<newline>''"
      if "k < length ?ps" for k
    proof -
      from that have "?ps ! k \<in> set ?ps" by simp
      then have "?ps ! k \<in> set kept" using m by (metis set_mset_mset)
      with keys obtain langs summary where ls: "languages (?ps ! k) = Some langs"
        "ai_summary (?ps ! k) = Some summary" by blast
      from nth that have "project_section dt (k + 1) (?ps ! k) = Inr (sections ! k)"
        by (simp add: add.commute)
      from project_section_text [OF this ls] ls show ?thesis by blast
    qed
    have head: "report =
        ustr ''# '' @ [128640]
        @ ustr '' GitHub Projects Portfolio\<newline>\<newline>**Generated on:** ''
        @ strftime dt (now_in_report dt) (ustr ''%B %d, %Y'')
        @ ustr ''  \<newline>**Total Projects with Documentation:** ''
        @ str_of_int (int (length ?found))
        @ ustr ''\<newline>\<newline>---\<newline>\<newline>## '' @ [128202]
        @ ustr '' Quick Overview\<newline>\<newline>| Metric | Count |\<newline>|--------|-------|\<newline>| **Total Documented Projects** | ''
        @ str_of_int (int (length ?found))
        @ ustr '' |\<newline>| **Total Stars** | ''
        @ str_of_int (sum_list (map (\<lambda>p. count_or_0 (stargazers_count p)) ?found))
        @ ustr '' |\<newline>| **Total Forks** | ''
        @ str_of_int (sum_list (map (\<lambda>p. count_or_0 (forks_count p)) ?found))
        @ ustr '' |\<newline>\<newline>---\<newline>\<newline>## '' @ [128193]
        @ ustr '' Project Details\<newline>\<newline>''
        @ concat sections @ report_foot (GITHUB_USERNAME w)"
      unfolding s(2) n st fk report_head_def by (simp only: append_assoc)
    from sec have secs: "\<forall>k<length ?ps. \<exists>created updated langs summary.
        strptime dt (created_at (?ps ! k)) (ustr ''%Y-%m-%dT%H:%M:%SZ'') = Inr created \<and>
        strptime dt (updated_at (?ps ! k)) (ustr ''%Y-%m-%dT%H:%M:%SZ'') = Inr updated \<and>
        languages (?ps ! k) = Some langs \<and>
        ai_summary (?ps ! k) = Some summary \<and>
        sections ! k =
          ustr ''### '' @ str_of_int (int (k + 1)) @ ustr ''. ['' @ name (?ps ! k)
          @ ustr '']('' @ html_url (?ps ! k)
          @ ustr '')\<newline>\<newline>**Technologies:** ''
          @ (if langs = [] then [96] @ ustr ''Unknown'' @ [96]
             else join (ustr '' '') (map (\<lambda>lang. [96] @ lang @ [96]) (take 5 (map fst langs))))
          @ ustr ''  \<newline>**Created:** '' @ strftime dt created (ustr ''%B %Y'')
          @ ustr '' | **Last Updated:** '' @ strftime dt updated (ustr ''%B %d, %Y'')
          @ ustr ''  \<newline>**Stats:** '' @ format_repo_stats (?ps ! k)
          @ ustr ''\<newline>\<newline>'' @ summary @ ustr ''\<newline>\<newline>---\<newline>\<newline>''"
      by blast
    have lg: "log = replicate (length kept) (Sleep 2) @
       (if kept = [] then []
        else [WriteFile (ustr ''github_projects_report_''
                         @ strftime dt (now_in_main dt) (ustr ''%Y%m%d_%H%M%S'') @ ustr ''.md'')
                report])"
      using False r(2) by simp
    show ?thesis
      apply (rule exI [of _ kept])
      apply (rule exI [of _ ?ps])
      apply (rule exI [of _ sections])
      apply (intro conjI)
           apply (rule k(2))
          apply (rule k(3))
         apply (rule m)
        apply (rule l)
       apply (rule secs)
      apply (unfold head [symmetric])
       apply (rule lg)
      apply (rule dg)
      done
  qed
qed

text \<open>
  Two well-formed timestamps compare as strings the way their values compare: the fields
  have fixed widths, and a field of decimal digits compares like the number it writes.
\<close>

lemma base_10_lt:
  fixes a b u v :: nat
  assumes "u \<le> 9" "v \<le> 9"
  shows "10 * a + u < 10 * b + v \<longleftrightarrow> a < b \<or> (a = b \<and> u < v)"
  using assms by linarith

lemma base_10_eq:
  fixes a b u v :: nat
  assumes "u \<le> 9" "v \<le> 9"
  shows "10 * a + u = 10 * b + v \<longleftrightarrow> a = b \<and> u = v"
proof -
  have "10 * a + u = 10 * b + v \<longleftrightarrow>
      \<not> 10 * a + u < 10 * b + v \<and> \<not> 10 * b + v < 10 * a + u"
    by linarith
  also have "\<dots> \<longleftrightarrow> a = b \<and> u = v"
    unfolding base_10_lt [OF assms] base_10_lt [OF assms(2,1)] by linarith
  finally show ?thesis .
qed

lemma foldl_decimal_less:
  assumes "length xs = length ys" "list_all is_digit xs" "list_all is_digit ys"
  shows "(foldl (\<lambda>a c. 10 * a + (c - 48)) a xs < foldl (\<lambda>a c. 10 * a + (c - 48)) b ys \<longleftrightarrow>
           a < b \<or> (a = b \<and> xs < ys)) \<and>
         (foldl (\<lambda>a c. 10 * a + (c - 48)) a xs = foldl (\<lambda>a c. 10 * a + (c - 48)) b ys \<longleftrightarrow>
           a = b \<and> xs = ys)"
  using assms
proof (induction xs ys arbitrary: a b rule: list_induct2)
  case Nil
  then show ?case by simp
next
  case (Cons x xs y ys)
  from Cons.prems have r: "list_all is_digit xs" "list_all is_digit ys"
    and dd: "is_digit x" "is_digit y" by simp_all
  from dd have d: "x - 48 \<le> 9" "y - 48 \<le> 9" "x - 48 < y - 48 \<longleftrightarrow> x < y"
    "x - 48 = y - 48 \<longleftrightarrow> x = y"
    by (auto simp: is_digit_def)
  note ih = Cons.IH [OF r, of "10 * a + (x - 48)" "10 * b + (y - 48)"]
  have l: "foldl (\<lambda>a c. 10 * a + (c - 48)) a (x # xs) < foldl (\<lambda>a c. 10 * a + (c - 48)) b (y # ys)
      \<longleftrightarrow> a < b \<or> (a = b \<and> x # xs < y # ys)"
    using ih base_10_lt [OF d(1,2), of a b] base_10_eq [OF d(1,2), of a b] d(3,4) by auto
  have e: "foldl (\<lambda>a c. 10 * a + (c - 48)) a (x # xs) = foldl (\<lambda>a c. 10 * a + (c - 48)) b (y # ys)
      \<longleftrightarrow> a = b \<and> x # xs = y # ys"
    using ih base_10_lt [OF d(1,2), of a b] base_10_eq [OF d(1,2), of a b] d(3,4) by auto
  from l e show ?case by blast
qed

lemma decimal_less:
  assumes "length xs = length ys" "list_all is_digit xs" "list_all is_digit ys"
  shows "decimal xs < decimal ys \<longleftrightarrow> xs < ys" and "decimal xs = decimal ys \<longleftrightarrow> xs = ys"
  using foldl_decimal_less [OF assms, of 0 0] by (simp_all add: decimal_def)

lemma append_le_same_length:
  fixes xs ys :: "nat list"
  assumes "length xs = length ys"
  shows "xs @ us \<le> ys @ vs \<longleftrightarrow> xs < ys \<or> (xs = ys \<and> us \<le> vs)"
  using assms
  by (induction xs ys rule: list_induct2) auto


lemma le_drop_field:
  fixes s t :: "nat list"
  assumes "length s = length t"
  shows "drop k s \<le> drop k t \<longleftrightarrow>
           take w (drop k s) < take w (drop k t) \<or>
           (take w (drop k s) = take w (drop k t) \<and> drop (k + w) s \<le> drop (k + w) t)"
proof -
  have a: "drop k s = take w (drop k s) @ drop (k + w) s"
    "drop k t = take w (drop k t) @ drop (k + w) t"
    by (metis append_take_drop_id drop_drop add.commute)+
  have l: "length (take w (drop k s)) = length (take w (drop k t))"
    using assms by simp
  show ?thesis
    using append_le_same_length [OF l, of "drop (k + w) s" "drop (k + w) t"] a by simp
qed

lemma le_drop_separator:
  fixes s t :: "nat list"
  assumes "length s = length t" "k < length s" "s ! k = c" "t ! k = c"
  shows "drop k s \<le> drop k t \<longleftrightarrow> drop (k + 1) s \<le> drop (k + 1) t"
proof -
  have "drop k s = c # drop (k + 1) s" "drop k t = c # drop (k + 1) t"
    using assms Cons_nth_drop_Suc [of k s] Cons_nth_drop_Suc [of k t] by simp_all
  then show ?thesis by simp
qed

lemma timestamp_order:
  assumes s: "well_formed_timestamp s" and t: "well_formed_timestamp t"
  shows "s \<le> t \<longleftrightarrow> timestamp_value s \<le> timestamp_value t"
proof -
  have len: "length s = length t" "length s = 20" "length t = 20"
    using s t by (simp_all add: well_formed_timestamp_def)
  have sep: "s ! 4 = 45" "t ! 4 = 45" "s ! 7 = 45" "t ! 7 = 45" "s ! 10 = 84" "t ! 10 = 84"
    "s ! 13 = 58" "t ! 13 = 58" "s ! 16 = 58" "t ! 16 = 58" "s ! 19 = 90" "t ! 19 = 90"
    using s t by (simp_all add: well_formed_timestamp_def)
  have dig: "list_all is_digit (take 4 s)" "list_all is_digit (take 4 t)"
    "list_all is_digit (take 2 (drop 5 s))" "list_all is_digit (take 2 (drop 5 t))"
    "list_all is_digit (take 2 (drop 8 s))" "list_all is_digit (take 2 (drop 8 t))"
    "list_all is_digit (take 2 (drop 11 s))" "list_all is_digit (take 2 (drop 11 t))"
    "list_all is_digit (take 2 (drop 14 s))" "list_all is_digit (take 2 (drop 14 t))"
    "list_all is_digit (take 2 (drop 17 s))" "list_all is_digit (take 2 (drop 17 t))"
    using s t by (simp_all add: well_formed_timestamp_def timestamp_fields_def)
  have l: "length (take 4 s) = length (take 4 t)"
    "length (take 2 (drop k s)) = length (take 2 (drop k t))" for k
    using len by simp_all
  note d1 = decimal_less [OF l(1) dig(1,2)]
  note d2 = decimal_less [OF l(2) dig(3,4)]
  note d3 = decimal_less [OF l(2) dig(5,6)]
  note d4 = decimal_less [OF l(2) dig(7,8)]
  note d5 = decimal_less [OF l(2) dig(9,10)]
  note d6 = decimal_less [OF l(2) dig(11,12)]
  have e: "drop 20 s \<le> drop 20 t" using len by simp
  have p19: "drop 19 s \<le> drop 19 t"
    using le_drop_separator [OF len(1) _ sep(11,12)] len e by simp
  have p17: "drop 17 s \<le> drop 17 t \<longleftrightarrow>
      take 2 (drop 17 s) < take 2 (drop 17 t) \<or> take 2 (drop 17 s) = take 2 (drop 17 t)"
    using le_drop_field [OF len(1), of 17 2] p19 by simp
  have p16: "drop 16 s \<le> drop 16 t \<longleftrightarrow> drop 17 s \<le> drop 17 t"
    using le_drop_separator [OF len(1) _ sep(9,10)] len by simp
  have p14: "drop 14 s \<le> drop 14 t \<longleftrightarrow>
      take 2 (drop 14 s) < take 2 (drop 14 t) \<or>
      (take 2 (drop 14 s) = take 2 (drop 14 t) \<and> drop 16 s \<le> drop 16 t)"
    using le_drop_field [OF len(1), of 14 2] by simp
  have p13: "drop 13 s \<le> drop 13 t \<longleftrightarrow> drop 14 s \<le> drop 14 t"
    using le_drop_separator [OF len(1) _ sep(7,8)] len by simp
  have p11: "drop 11 s \<le> drop 11 t \<longleftrightarrow>
      take 2 (drop 11 s) < take 2 (drop 11 t) \<or>
      (take 2 (drop 11 s) = take 2 (drop 11 t) \<and> drop 13 s \<le> drop 13 t)"
    using le_drop_field [OF len(1), of 11 2] by simp
  have p10: "drop 10 s \<le> drop 10 t \<longleftrightarrow> drop 11 s \<le> drop 11 t"
    using le_drop_separator [OF len(1) _ sep(5,6)] len by simp
  have p8: "drop 8 s \<le> drop 8 t \<longleftrightarrow>
      take 2 (drop 8 s) < take 2 (drop 8 t) \<or>
      (take 2 (drop 8 s) = take 2 (drop 8 t) \<and> drop 10 s \<le> drop 10 t)"
    using le_drop_field [OF len(1), of 8 2] by simp
  have p7: "drop 7 s \<le> drop 7 t \<longleftrightarrow> drop 8 s \<le> drop 8 t"
    using le_drop_separator [OF len(1) _ sep(3,4)] len by simp
  have p5: "drop 5 s \<le> drop 5 t \<longleftrightarrow>
      take 2 (drop 5 s) < take 2 (drop 5 t) \<or>
      (take 2 (drop 5 s) = take 2 (drop 5 t) \<and> drop 7 s \<le> drop 7 t)"
    using le_drop_field [OF len(1), of 5 2] by simp
  have p4: "drop 4 s \<le> drop 4 t \<longleftrightarrow> drop 5 s \<le> drop 5 t"
    using le_drop_separator [OF len(1) _ sep(1,2)] len by simp
  have p0: "s \<le> t \<longleftrightarrow> take 4 s < take 4 t \<or> (take 4 s = take 4 t \<and> drop 4 s \<le> drop 4 t)"
    using le_drop_field [OF len(1), of 0 4] by simp
  have v: "timestamp_value s \<le> timestamp_value t \<longleftrightarrow>
      take 4 s < take 4 t \<or> (take 4 s = take 4 t \<and>
      (take 2 (drop 5 s) < take 2 (drop 5 t) \<or> (take 2 (drop 5 s) = take 2 (drop 5 t) \<and>
      (take 2 (drop 8 s) < take 2 (drop 8 t) \<or> (take 2 (drop 8 s) = take 2 (drop 8 t) \<and>
      (take 2 (drop 11 s) < take 2 (drop 11 t) \<or> (take 2 (drop 11 s) = take 2 (drop 11 t) \<and>
      (take 2 (drop 14 s) < take 2 (drop 14 t) \<or> (take 2 (drop 14 s) = take 2 (drop 14 t) \<and>
      (take 2 (drop 17 s) < take 2 (drop 17 t) \<or>
       take 2 (drop 17 s) = take 2 (drop 17 t)))))))))))"
    unfolding timestamp_value_def timestamp_fields_def
    by (simp only: list.map Cons_le_Cons d1 d2 d3 d4 d5 d6 order_refl simp_thms)
  show ?thesis
    by (simp only: v p0 p4 p5 p7 p8 p10 p11 p13 p14 p16 p17)
qed

lemma sort_key_of_ge:
  "sort_key_of a \<ge> sort_key_of b \<longleftrightarrow>
     count_or_0 (stargazers_count a) > count_or_0 (stargazers_count b) \<or>
     (count_or_0 (stargazers_count a) = count_or_0 (stargazers_count b) \<and>
      updated_at a \<ge> updated_at b)"
  by (auto simp: sort_key_of_def less_eq_prod_def)

text \<open>
  Claim C10. The report that the summarizer writes is generated from the kept repositories
  sorted by the pair (\<^verbatim>\<open>stargazers_count\<close>, \<^verbatim>\<open>updated_at\<close>) in descending order: of two
  sections the earlier one has more stars, or as many stars and an \<^verbatim>\<open>updated_at\<close> that is
  greater or equal as a string; when both have as many stars and well-formed timestamps, the
  earlier one was updated at the same time or later. Repositories with equal pairs keep
  their listing order. Section
  number \<open>k + 1\<close> of the report is the section of the \<open>k\<close>-th repository of the sorted
  list.
\<close>

theorem report_sections_sorted:
  assumes "summarize dt w all_repos = (Inr (), log)"
    and "WriteFile f report \<in> set log"
  shows "\<exists>kept projects sections.
     summarize_repos w all_repos [] [] = (Inr kept, replicate (length kept) (Sleep 2)) \<and>
     projects = sorted_reverse sort_key_of kept \<and>
     mset projects = mset kept \<and>
     (\<forall>i j. i < j \<and> j < length projects \<longrightarrow>
        count_or_0 (stargazers_count (projects ! i)) > count_or_0 (stargazers_count (projects ! j)) \<or>
        (count_or_0 (stargazers_count (projects ! i)) = count_or_0 (stargazers_count (projects ! j)) \<and>
         updated_at (projects ! i) \<ge> updated_at (projects ! j))) \<and>
     (\<forall>i j. i < j \<and> j < length projects \<and>
        count_or_0 (stargazers_count (projects ! i)) = count_or_0 (stargazers_count (projects ! j)) \<and>
        well_formed_timestamp (updated_at (projects ! i)) \<and>
        well_formed_timestamp (updated_at (projects ! j)) \<longrightarrow>
        timestamp_value (updated_at (projects ! j)) \<le> timestamp_value (updated_at (projects ! i))) \<and>
     (\<forall>k. filter (\<lambda>p. sort_key_of p = k) projects = filter (\<lambda>p. sort_key_of p = k) kept) \<and>
     length sections = length projects \<and>
     (\<forall>k<length projects. project_section dt (k + 1) (projects ! k) = Inr (sections ! k)) \<and>
     report = report_head (strftime dt (now_in_report dt) (ustr ''%B %d, %Y'')) (length projects)
                (sum_list (map (\<lambda>p. count_or_0 (stargazers_count p)) projects))
                (sum_list (map (\<lambda>p. count_or_0 (forks_count p)) projects))
              @ concat sections @ report_foot (GITHUB_USERNAME w)"
proof -
  from summarize_result [OF assms(1)] obtain kept where k:
    "summarize_repos w all_repos [] [] = (Inr kept, replicate (length kept) (Sleep 2))"
    "kept = [] \<longrightarrow> log = []"
    "kept \<noteq> [] \<longrightarrow>
         (\<exists>report. generate_markdown_report dt (GITHUB_USERNAME w)
                      (sorted_reverse sort_key_of kept) = Inr report \<and>
            log = replicate (length kept) (Sleep 2) @
              [WriteFile (ustr ''github_projects_report_''
                          @ strftime dt (now_in_main dt) (ustr ''%Y%m%d_%H%M%S'') @ ustr ''.md'')
                 report])" by blast
  let ?ps = "sorted_reverse sort_key_of kept"
  from assms(2) k(2) have ne: "kept \<noteq> []" by auto
  with k(3) obtain report' where r:
    "generate_markdown_report dt (GITHUB_USERNAME w) ?ps = Inr report'"
    "log = replicate (length kept) (Sleep 2) @
              [WriteFile (ustr ''github_projects_report_''
                          @ strftime dt (now_in_main dt) (ustr ''%Y%m%d_%H%M%S'') @ ustr ''.md'')
                 report']" by blast
  from assms(2) r(2) have "report' = report" by auto
  with r(1) have g: "generate_markdown_report dt (GITHUB_USERNAME w) ?ps = Inr report" by simp
  from generate_markdown_report_parts [OF g] obtain sections where s:
    "project_sections dt 1 ?ps = Inr sections"
    "report = report_head (strftime dt (now_in_report dt) (ustr ''%B %d, %Y'')) (length ?ps)
                (sum_list (map (\<lambda>p. count_or_0 (stargazers_count p)) ?ps))
                (sum_list (map (\<lambda>p. count_or_0 (forks_count p)) ?ps))
              @ concat sections @ report_foot (GITHUB_USERNAME w)" by blast
  from project_sections_nth [OF s(1)] have n: "length sections = length ?ps"
    "\<forall>k<length ?ps. project_section dt (k + 1) (?ps ! k) = Inr (sections ! k)"
    by (simp_all add: add.commute)
  have d: "\<forall>i j. i < j \<and> j < length ?ps \<longrightarrow>
        count_or_0 (stargazers_count (?ps ! i)) > count_or_0 (stargazers_count (?ps ! j)) \<or>
        (count_or_0 (stargazers_count (?ps ! i)) = count_or_0 (stargazers_count (?ps ! j)) \<and>
         updated_at (?ps ! i) \<ge> updated_at (?ps ! j))"
    using sorted_reverse_descending [of sort_key_of kept]
    by (simp add: sorted_wrt_iff_nth_less sort_key_of_ge)
  have ts: "\<forall>i j. i < j \<and> j < length ?ps \<and>
        count_or_0 (stargazers_count (?ps ! i)) = count_or_0 (stargazers_count (?ps ! j)) \<and>
        well_formed_timestamp (updated_at (?ps ! i)) \<and>
        well_formed_timestamp (updated_at (?ps ! j)) \<longrightarrow>
        timestamp_value (updated_at (?ps ! j)) \<le> timestamp_value (updated_at (?ps ! i))"
  proof (intro allI impI, elim conjE)
    fix i j
    assume a: "i < j" "j < length ?ps"
      "count_or_0 (stargazers_count (?ps ! i)) = count_or_0 (stargazers_count (?ps ! j))"
      "well_formed_timestamp (updated_at (?ps ! i))" "well_formed_timestamp (updated_at (?ps ! j))"
    from d a(1,2)
    have "count_or_0 (stargazers_count (?ps ! i)) > count_or_0 (stargazers_count (?ps ! j)) \<or>
        (count_or_0 (stargazers_count (?ps ! i)) = count_or_0 (stargazers_count (?ps ! j)) \<and>
         updated_at (?ps ! i) \<ge> updated_at (?ps ! j))" by blast
    with a(3) have "updated_at (?ps ! j) \<le> updated_at (?ps ! i)" by simp
    with timestamp_order [OF a(5,4)]
    show "timestamp_value (updated_at (?ps ! j)) \<le> timestamp_value (updated_at (?ps ! i))"
      by simp
  qed
  have st: "\<forall>k. filter (\<lambda>p. sort_key_of p = k) ?ps = filter (\<lambda>p. sort_key_of p = k) kept"
    by (simp add: sorted_reverse_stable)
  from k(1) mset_sorted_reverse [of sort_key_of kept] d ts st n s(2) show ?thesis
    by (intro exI [of _ kept] exI [of _ ?ps] exI [of _ sections]) simp
qed

section \<open>A run of the summarizer\<close>

lemma generate_project_summary_success:
  assumes "utf8_encode (summary_prompt repo_name readme_text langs) = Inr input"
    and "subprocess_run [ustr ''ollama'', ustr ''run'', model] input 180 = Inr result"
    and "returncode result = 0"
    and "utf8_decode False (stdout result) = Inr out"
  shows "generate_project_summary print exc_str subprocess_run model repo_name readme_text langs =
           Inr (strip out)"
  using assms by (simp add: generate_project_summary_def try_except_def Let_def)

lemma lang_info_demo:
  "lang_info [(ustr ''Python'', 1024), (ustr ''JavaScript'', 256)] =
     ustr ''Python'' @ ustr '', '' @ ustr ''JavaScript''"
  by (simp add: lang_info_def top_languages_def sorted_reverse_def)

lemma demo_summary:
  assumes "\<forall>c\<in>set n. \<not> (0xD800 \<le> c \<and> c < 0xE000)"
  shows "generate_project_summary (console_print demo_world) (exception_text demo_world)
     (process_backend demo_world) (OLLAMA_MODEL demo_world) n
     (ustr ''Hello World!'') [(ustr ''Python'', 1024), (ustr ''JavaScript'', 256)] =
     Inr (ustr ''AI summary'')"
proof -
  have "\<forall>c\<in>set (summary_prompt n (ustr ''Hello World!'')
      [(ustr ''Python'', 1024), (ustr ''JavaScript'', 256)]). \<not> (0xD800 \<le> c \<and> c < 0xE000)"
    using assms unfolding summary_prompt_def lang_info_demo
    by (auto dest: ustr_no_surrogate in_set_takeD)
  from utf8_encode_no_surrogate [OF this] obtain b where b:
    "utf8_encode (summary_prompt n (ustr ''Hello World!'')
       [(ustr ''Python'', 1024), (ustr ''JavaScript'', 256)]) = Inr b" by blast
  have d: "utf8_decode False (ustr ''AI summary'') = Inr (ustr ''AI summary'')"
    by (rule utf8_decode_ascii) (simp add: ustr_def)
  have s: "strip (ustr ''AI summary'') = ustr ''AI summary''"
    by (simp add: strip_def lstrip_def rstrip_def isspace_def ustr_def)
  have "generate_project_summary (console_print demo_world) (exception_text demo_world)
     (process_backend demo_world) (OLLAMA_MODEL demo_world) n
     (ustr ''Hello World!'') [(ustr ''Python'', 1024), (ustr ''JavaScript'', 256)] =
     Inr (strip (ustr ''AI summary''))"
    by (rule generate_project_summary_success [OF b, where result =
          "\<lparr>returncode = 0, stdout = ustr ''AI summary'', stderr = []\<rparr>"])
       (simp_all add: demo_world_def run_summary_def d)
  then show ?thesis by (simp only: s)
qed

lemma demo_readme:
  "n \<noteq> ustr ''no-docs'' \<Longrightarrow>
     get_readme (readme_endpoint demo_world) (GITHUB_USERNAME demo_world) n =
       Inr (Some (ustr ''Hello World!''))"
  "get_readme (readme_endpoint demo_world) (GITHUB_USERNAME demo_world) (ustr ''no-docs'') = Inr None"
proof -
  assume "n \<noteq> ustr ''no-docs''"
  then have "readme_endpoint demo_world (GITHUB_USERNAME demo_world) n =
      readme_hello (GITHUB_USERNAME demo_world) n"
    by (simp add: demo_world_def)
  then have "get_readme (readme_endpoint demo_world) (GITHUB_USERNAME demo_world) n =
      get_readme readme_hello (GITHUB_USERNAME demo_world) n"
    by (simp add: get_readme_def)
  then show "get_readme (readme_endpoint demo_world) (GITHUB_USERNAME demo_world) n =
       Inr (Some (ustr ''Hello World!''))"
    by (simp only: get_readme_hello)
next
  show "get_readme (readme_endpoint demo_world) (GITHUB_USERNAME demo_world) (ustr ''no-docs'') =
      Inr None"
    by (simp add: get_readme_def demo_world_def)
qed

lemma hello_Cons: "ustr ''Hello World!'' = 72 # ustr ''ello World!''"
  by (simp add: ustr_def)

lemma demo_languages:
  "get_repo_languages (languages_endpoint demo_world) (GITHUB_USERNAME demo_world) n =
     [(ustr ''Python'', 1024), (ustr ''JavaScript'', 256)]"
  by (simp add: get_repo_languages_def demo_world_def languages_ok_def)

lemma demo_names:
  "name repo_alpha = ustr ''alpha''" "name repo_beta = ustr ''beta''"
  "name repo_nodocs = ustr ''no-docs''"
  "ustr ''alpha'' \<noteq> ustr ''no-docs''" "ustr ''beta'' \<noteq> ustr ''no-docs''"
  by (simp_all add: repo_alpha_def repo_beta_def repo_nodocs_def ustr_def)

lemma demo_keep:
  assumes "name repo \<noteq> ustr ''no-docs''"
    and "\<forall>c\<in>set (name repo). \<not> (0xD800 \<le> c \<and> c < 0xE000)"
  shows "summarize_repo demo_world repo acc log = (Inr (acc @ [documented repo]), log @ [Sleep 2])"
  using demo_readme(1) [OF assms(1)] demo_summary [OF assms(2)]
  unfolding hello_Cons
  by (simp add: summarize_repo_def Let_def demo_languages documented_def hello_Cons)

lemma demo_skip: "summarize_repo demo_world repo_nodocs acc log = (Inr acc, log)"
  using demo_readme(2) by (simp add: summarize_repo_def Let_def demo_names)

lemma demo_loop:
  "summarize_repos demo_world [repo_alpha, repo_nodocs, repo_beta] [] [] =
     (Inr [documented repo_alpha, documented repo_beta], [Sleep 2, Sleep 2])"
proof -
  have a: "summarize_repo demo_world repo_alpha [] [] = (Inr [documented repo_alpha], [Sleep 2])"
    using demo_keep [of repo_alpha "[]" "[]"] ustr_no_surrogate by (simp add: demo_names)
  have b: "summarize_repo demo_world repo_beta [documented repo_alpha] [Sleep 2] =
      (Inr [documented repo_alpha, documented repo_beta], [Sleep 2, Sleep 2])"
    using demo_keep [of repo_beta "[documented repo_alpha]" "[Sleep 2]"] ustr_no_surrogate
    by (simp add: demo_names)
  show ?thesis by (simp add: a b demo_skip)
qed

lemma demo_sort:
  "sorted_reverse sort_key_of [documented repo_alpha, documented repo_beta] =
     [documented repo_beta, documented repo_alpha]"
proof -
  have "sort_key_of (documented repo_alpha) = (1, ustr ''2024-09-01T12:00:00Z'')"
    "sort_key_of (documented repo_beta) = (3, ustr ''2024-09-02T12:00:00Z'')"
    by (simp_all add: sort_key_of_def documented_def repo_alpha_def repo_beta_def count_or_0_def)
  then show ?thesis by (simp add: sorted_reverse_def less_eq_prod_def)
qed

lemma str_of_int_digit: "0 \<le> i \<Longrightarrow> i < 10 \<Longrightarrow> str_of_int i = [48 + nat i]"
  by (simp add: str_of_int_def str_of_nat.simps)

lemma demo_stats:
  "format_repo_stats (documented repo_beta) = [0x2B50] @ ustr '' 3 stars''"
  "format_repo_stats (documented repo_alpha) =
     [0x2B50] @ ustr '' 1 stars | '' @ [0x1F374] @ ustr '' 2 forks | '' @ [0x1F4DD]
     @ ustr '' 3 open issues''"
  by (simp_all add: format_repo_stats_def documented_def repo_alpha_def repo_beta_def
      count_or_0_def str_of_int_digit ustr_def)

lemma demo_sections:
  "project_section demo_dt 1 (documented repo_beta) =
     Inr (section_text 1 (ustr ''beta'') (ustr ''https://github.com/demo-user/beta'')
         ([96] @ ustr ''Python'' @ [96] @ ustr '' '' @ [96] @ ustr ''JavaScript'' @ [96])
         (ustr ''2023-01-01T12:00:00Z'') (ustr ''2024-09-02T12:00:00Z'')
         ([0x2B50] @ ustr '' 3 stars'') (ustr ''AI summary''))"
  "project_section demo_dt 2 (documented repo_alpha) =
     Inr (section_text 2 (ustr ''alpha'') (ustr ''https://github.com/demo-user/alpha'')
         ([96] @ ustr ''Python'' @ [96] @ ustr '' '' @ [96] @ ustr ''JavaScript'' @ [96])
         (ustr ''2024-01-01T12:00:00Z'') (ustr ''2024-09-01T12:00:00Z'')
         ([0x2B50] @ ustr '' 1 stars | '' @ [0x1F374] @ ustr '' 2 forks | '' @ [0x1F4DD]
          @ ustr '' 3 open issues'')
         (ustr ''AI summary''))"
  by (simp_all add: project_section_def Let_def demo_stats demo_dt_def)
     (simp_all add: documented_def repo_alpha_def repo_beta_def)

lemma demo_generate:
  "generate_markdown_report demo_dt (ustr ''demo-user'')
     [documented repo_beta, documented repo_alpha] = Inr demo_report"
proof -
  have s: "project_sections demo_dt 1 [documented repo_beta, documented repo_alpha] =
      Inr [section_text 1 (ustr ''beta'') (ustr ''https://github.com/demo-user/beta'')
         ([96] @ ustr ''Python'' @ [96] @ ustr '' '' @ [96] @ ustr ''JavaScript'' @ [96])
         (ustr ''2023-01-01T12:00:00Z'') (ustr ''2024-09-02T12:00:00Z'')
         ([0x2B50] @ ustr '' 3 stars'') (ustr ''AI summary''),
        section_text 2 (ustr ''alpha'') (ustr ''https://github.com/demo-user/alpha'')
         ([96] @ ustr ''Python'' @ [96] @ ustr '' '' @ [96] @ ustr ''JavaScript'' @ [96])
         (ustr ''2024-01-01T12:00:00Z'') (ustr ''2024-09-01T12:00:00Z'')
         ([0x2B50] @ ustr '' 1 stars | '' @ [0x1F374] @ ustr '' 2 forks | '' @ [0x1F4DD]
          @ ustr '' 3 open issues'')
         (ustr ''AI summary'')]"
    by (simp only: project_sections.simps demo_sections one_add_one sum.case)
  have c: "count_or_0 (stargazers_count (documented repo_beta)) = 3"
    "count_or_0 (stargazers_count (documented repo_alpha)) = 1"
    "count_or_0 (forks_count (documented repo_beta)) = 0"
    "count_or_0 (forks_count (documented repo_alpha)) = 2"
    by (simp_all add: documented_def repo_alpha_def repo_beta_def count_or_0_def)
  have n: "strftime demo_dt (now_in_report demo_dt) (ustr ''%B %d, %Y'') = ustr ''November 04, 2026''"
    by (simp add: demo_dt_def)
  have l: "length [documented repo_beta, documented repo_alpha] = 2" by simp
  show ?thesis
    unfolding generate_markdown_report_def Let_def s l n
    by (simp add: c demo_report_def)
qed

lemma demo_run:
  "summarize demo_dt demo_world [repo_alpha, repo_nodocs, repo_beta] = (Inr (), demo_log)"
proof -
  have u: "GITHUB_USERNAME demo_world = ustr ''demo-user''" by (simp add: demo_world_def)
  have f: "ustr ''github_projects_report_''
      @ strftime demo_dt (now_in_main demo_dt) (ustr ''%Y%m%d_%H%M%S'') @ ustr ''.md'' =
      ustr ''github_projects_report_20261104_120000.md''"
    by (simp add: demo_dt_def ustr_def)
  show ?thesis
    unfolding summarize_def demo_loop
    by (simp add: demo_sort demo_generate u f demo_log_def Let_def del: append.simps)
qed

lemma demo_found:
  "filter (readme_found demo_world) [repo_alpha, repo_nodocs, repo_beta] = [repo_alpha, repo_beta]"
proof -
  have "readme_found demo_world repo_alpha" "readme_found demo_world repo_beta"
    using demo_readme(1) [of "ustr ''alpha''"] demo_readme(1) [of "ustr ''beta''"]
    by (simp_all add: readme_found_def demo_names hello_Cons)
  moreover have "\<not> readme_found demo_world repo_nodocs"
    using demo_readme(2) by (simp add: readme_found_def demo_names)
  ultimately show ?thesis by simp
qed

text \<open>
  The whole run, from the listing (one page of three repositories, then an empty page) to
  the file: the report has the sections of \<^verbatim>\<open>beta\<close> and \<^verbatim>\<open>alpha\<close>, in this order, and
  its totals are 4 stars and 2 forks; \<^verbatim>\<open>no-docs\<close>, with its 7 stars, is left out.
\<close>

lemma demo_listing:
  "list_public_repos (repos_endpoint demo_world) (GITHUB_USERNAME demo_world) =
     Some (Inr [repo_alpha, repo_nodocs, repo_beta], [1, 2])"
proof -
  let ?get = "repos_endpoint demo_world (GITHUB_USERNAME demo_world) 50"
  have a: "\<forall>p. 1 \<le> p \<and> p \<le> 2 \<longrightarrow> raise_for_status (?get p) = Inr ()"
    by (simp add: demo_world_def raise_for_status_def)
  have b: "\<forall>p. 1 \<le> p \<and> p < 2 \<longrightarrow> json (?get p) \<noteq> []"
    by (simp add: demo_world_def)
  have c: "json (?get 2) = []" by (simp add: demo_world_def)
  have d: "concat (map (\<lambda>p. json (?get p)) [1..<2]) = [repo_alpha, repo_nodocs, repo_beta]"
    by (simp add: demo_world_def upt_rec)
  have e: "[1..<Suc 2] = [1, 2::nat]" by (simp add: upt_rec)
  from list_pages_stop [of 1 2 ?get "[]" "[]", OF _ a b c]
  show ?thesis unfolding list_public_repos_def d e by simp
qed

lemma demo_main:
  "main_summarizer demo_dt demo_world = Some (Inr (), demo_log)"
  by (simp add: main_summarizer_def demo_listing demo_run)

theorem report_covers_documented_repos_witness:
  "summarize demo_dt demo_world [repo_alpha, repo_nodocs, repo_beta] = (Inr (), demo_log) \<and>
   filter (readme_found demo_world) [repo_alpha, repo_nodocs, repo_beta] = [repo_alpha, repo_beta] \<and>
   (\<exists>kept projects sections.
     map as_listed kept = map as_listed [repo_alpha, repo_beta] \<and>
     (\<forall>p\<in>set kept. \<exists>c cs. readme_content p = Some (c # cs)) \<and>
     mset projects = mset kept \<and>
     length sections = length projects \<and>
     (\<forall>k<length projects. \<exists>created updated langs summary.
        strptime demo_dt (created_at (projects ! k)) (ustr ''%Y-%m-%dT%H:%M:%SZ'') = Inr created \<and>
        strptime demo_dt (updated_at (projects ! k)) (ustr ''%Y-%m-%dT%H:%M:%SZ'') = Inr updated \<and>
        languages (projects ! k) = Some langs \<and>
        ai_summary (projects ! k) = Some summary \<and>
        sections ! k =
          ustr ''### '' @ str_of_int (int (k + 1)) @ ustr ''. ['' @ name (projects ! k)
          @ ustr '']('' @ html_url (projects ! k)
          @ ustr '')\<newline>\<newline>**Technologies:** ''
          @ (if langs = [] then [96] @ ustr ''Unknown'' @ [96]
             else join (ustr '' '') (map (\<lambda>lang. [96] @ lang @ [96]) (take 5 (map fst langs))))
          @ ustr ''  \<newline>**Created:** '' @ strftime demo_dt created (ustr ''%B %Y'')
          @ ustr '' | **Last Updated:** '' @ strftime demo_dt updated (ustr ''%B %d, %Y'')
          @ ustr ''  \<newline>**Stats:** '' @ format_repo_stats (projects ! k)
          @ ustr ''\<newline>\<newline>'' @ summary @ ustr ''\<newline>\<newline>---\<newline>\<newline>'') \<and>
     demo_log = replicate (length kept) (Sleep 2) @
       (if kept = [] then []
        else [WriteFile (ustr ''github_projects_report_''
                         @ strftime demo_dt (now_in_main demo_dt) (ustr ''%Y%m%d_%H%M%S'')
                         @ ustr ''.md'')
                (ustr ''# '' @ [128640]
                 @ ustr '' GitHub Projects Portfolio\<newline>\<newline>**Generated on:** ''
                 @ strftime demo_dt (now_in_report demo_dt) (ustr ''%B %d, %Y'')
                 @ ustr ''  \<newline>**Total Projects with Documentation:** ''
                 @ str_of_int (int (length [repo_alpha, repo_beta]))
                 @ ustr ''\<newline>\<newline>---\<newline>\<newline>## '' @ [128202]
                 @ ustr '' Quick Overview\<newline>\<newline>| Metric | Count |\<newline>|--------|-------|\<newline>| **Total Documented Projects** | ''
                 @ str_of_int (int (length [repo_alpha, repo_beta]))
                 @ ustr '' |\<newline>| **Total Stars** | ''
                 @ str_of_int (sum_list (map (\<lambda>p. count_or_0 (stargazers_count p))
                      [repo_alpha, repo_beta]))
                 @ ustr '' |\<newline>| **Total Forks** | ''
                 @ str_of_int (sum_list (map (\<lambda>p. count_or_0 (forks_count p))
                      [repo_alpha, repo_beta]))
                 @ ustr '' |\<newline>\<newline>---\<newline>\<newline>## '' @ [128193]
                 @ ustr '' Project Details\<newline>\<newline>''
                 @ concat sections @ report_foot (GITHUB_USERNAME demo_world))]) \<and>
     (\<forall>n. list_all is_digit (str_of_int (int n)) \<and> decimal (str_of_int (int n)) = n)) \<and>
   str_of_int (int (length [repo_alpha, repo_beta])) = ustr ''2'' \<and>
   str_of_int (sum_list (map (\<lambda>p. count_or_0 (stargazers_count p)) [repo_alpha, repo_beta])) =
     ustr ''4'' \<and>
   str_of_int (sum_list (map (\<lambda>p. count_or_0 (forks_count p)) [repo_alpha, repo_beta])) =
     ustr ''2''"
proof -
  note t = report_covers_documented_repos [OF demo_run, unfolded demo_found]
  have a: "str_of_int (int (length [repo_alpha, repo_beta])) = ustr ''2''"
    by (simp add: str_of_int_digit ustr_def)
  have b: "str_of_int (sum_list (map (\<lambda>p. count_or_0 (stargazers_count p))
      [repo_alpha, repo_beta])) = ustr ''4''"
    by (simp add: repo_alpha_def repo_beta_def count_or_0_def str_of_int_digit ustr_def)
  have c: "str_of_int (sum_list (map (\<lambda>p. count_or_0 (forks_count p))
      [repo_alpha, repo_beta])) = ustr ''2''"
    by (simp add: repo_alpha_def repo_beta_def count_or_0_def str_of_int_digit ustr_def)
  from demo_run demo_found t a b c show ?thesis by blast
qed

theorem report_sections_sorted_witness:
  "summarize demo_dt demo_world [repo_alpha, repo_nodocs, repo_beta] = (Inr (), demo_log) \<and>
   WriteFile (ustr ''github_projects_report_20261104_120000.md'') demo_report \<in> set demo_log \<and>
   sorted_reverse sort_key_of [documented repo_alpha, documented repo_beta] =
     [documented repo_beta, documented repo_alpha] \<and>
   (\<exists>kept projects sections.
     summarize_repos demo_world [repo_alpha, repo_nodocs, repo_beta] [] [] =
       (Inr kept, replicate (length kept) (Sleep 2)) \<and>
     projects = sorted_reverse sort_key_of kept \<and>
     mset projects = mset kept \<and>
     (\<forall>i j. i < j \<and> j < length projects \<longrightarrow>
        count_or_0 (stargazers_count (projects ! i)) > count_or_0 (stargazers_count (projects ! j)) \<or>
        (count_or_0 (stargazers_count (projects ! i)) = count_or_0 (stargazers_count (projects ! j)) \<and>
         updated_at (projects ! i) \<ge> updated_at (projects ! j))) \<and>
     (\<forall>i j. i < j \<and> j < length projects \<and>
        count_or_0 (stargazers_count (projects ! i)) = count_or_0 (stargazers_count (projects ! j)) \<and>
        well_formed_timestamp (updated_at (projects ! i)) \<and>
        well_formed_timestamp (updated_at (projects ! j)) \<longrightarrow>
        timestamp_value (updated_at (projects ! j)) \<le> timestamp_value (updated_at (projects ! i))) \<and>
     (\<forall>k. filter (\<lambda>p. sort_key_of p = k) projects = filter (\<lambda>p. sort_key_of p = k) kept) \<and>
     length sections = length projects \<and>
     (\<forall>k<length projects. project_section demo_dt (k + 1) (projects ! k) = Inr (sections ! k)) \<and>
     demo_report =
       report_head (strftime demo_dt (now_in_report demo_dt) (ustr ''%B %d, %Y'')) (length projects)
         (sum_list (map (\<lambda>p. count_or_0 (stargazers_count p)) projects))
         (sum_list (map (\<lambda>p. count_or_0 (forks_count p)) projects))
       @ concat sections @ report_foot (GITHUB_USERNAME demo_world))"
proof -
  have m: "WriteFile (ustr ''github_projects_report_20261104_120000.md'') demo_report \<in> set demo_log"
    by (simp add: demo_log_def)
  from report_sections_sorted [OF demo_run m] demo_run m demo_sort show ?thesis by blast
qed

end
